theory Spec2Isabelle
  imports Complex_Main "HOL-Library.Multiset" "HOL-Library.Code_Target_Nat"
begin

section \<open>JavaScript strings\<close>

text \<open>
  A JavaScript string is a sequence of UTF-16 code units. A code unit is modelled by its
  number; the functions below only compare code units and never compute with them beyond
  ASCII case conversion. ASCII text is written as an Isabelle string and converted by
  \<open>asc\<close>.
\<close>

type_synonym cu = nat
type_synonym jsstring = "cu list"

definition cu :: "char \<Rightarrow> cu" where
  "cu ch = of_char ch"

definition asc :: "string \<Rightarrow> jsstring" where
  "asc s = map cu s"

text \<open>
  The code units matched by \<open>\s\<close> in a regular expression and stripped by
  \<open>String.prototype.trim\<close>: ECMAScript's WhiteSpace and LineTerminator code points
  (TAB, LF, VT, FF, CR, SP, NBSP, the Unicode space separators, LS, PS and the BOM).
\<close>

definition isWhiteSpace :: "cu \<Rightarrow> bool" where
  "isWhiteSpace c =
     ((9 \<le> c \<and> c \<le> 13) \<or> c = 32 \<or> c = 160 \<or> c = 5760 \<or> (8192 \<le> c \<and> c \<le> 8202)
      \<or> c = 8232 \<or> c = 8233 \<or> c = 8239 \<or> c = 8287 \<or> c = 12288 \<or> c = 65279)"

text \<open>The line terminators, which \<open>.\<close> does not match: LF, CR, LS, PS.\<close>

definition isLineTerminator :: "cu \<Rightarrow> bool" where
  "isLineTerminator c = (c = 10 \<or> c = 13 \<or> c = 8232 \<or> c = 8233)"

definition isDigit :: "cu \<Rightarrow> bool" where
  "isDigit c = (48 \<le> c \<and> c \<le> 57)"

text \<open>The word characters of \<open>\b\<close>: \<open>[A-Za-z0-9_]\<close>.\<close>

definition isWordChar :: "cu \<Rightarrow> bool" where
  "isWordChar c = ((97 \<le> c \<and> c \<le> 122) \<or> (65 \<le> c \<and> c \<le> 90) \<or> isDigit c \<or> c = 95)"

text \<open>
  Canonicalize of a case-insensitive regular expression without the \<open>u\<close> flag: the code
  unit's upper case, unless that would turn a non-ASCII code unit into an ASCII one. The
  patterns of this program contain ASCII characters and U+00D5 only, and on every
  comparison against one of those this function agrees with ECMAScript's: ASCII lower
  case letters go to upper case, U+00F5 goes to U+00D5, and no other code unit has an
  ASCII canonical form or the canonical form U+00D5.
\<close>

definition canonicalize :: "cu \<Rightarrow> cu" where
  "canonicalize c = (if 97 \<le> c \<and> c \<le> 122 then c - 32 else if c = 245 then 213 else c)"

text \<open>
  \<open>String.prototype.toUpperCase\<close>, on the strings this program passes to it (one
  captured letter of \<open>[A-Da-d]\<close>): ASCII letters go to upper case.
\<close>

definition toUpperCase :: "jsstring \<Rightarrow> jsstring" where
  "toUpperCase s = map (\<lambda>c. if 97 \<le> c \<and> c \<le> 122 then c - 32 else c) s"

text \<open>\<open>String.prototype.trim\<close>.\<close>

definition trim :: "jsstring \<Rightarrow> jsstring" where
  "trim s = rev (dropWhile isWhiteSpace (rev (dropWhile isWhiteSpace s)))"

text \<open>
  \<open>parseInt\<close> on a string of decimal digits, which is all the program passes to it
  (a capture of \<open>\d+\<close> or \<open>\d{1,3}\<close>), and the decimal rendering of a number in a
  template literal. (JavaScript numbers are doubles: the value is exact below \<open>2^53\<close>.)
\<close>

definition parseInt :: "jsstring \<Rightarrow> nat" where
  "parseInt s = foldl (\<lambda>a c. 10 * a + (c - 48)) 0 s"

function numberToString :: "nat \<Rightarrow> jsstring" where
  "numberToString n = (if n < 10 then [48 + n] else numberToString (n div 10) @ [48 + n mod 10])"
  by pat_completeness auto
termination
  by (relation "measure id") auto

declare numberToString.simps [simp del]

section \<open>Regular expressions\<close>

text \<open>
  The fragment of ECMAScript regular expression syntax that the program's literals use.
  A character class is a list of class atoms; a quantifier applies to a single-character
  atom (\<open>Rep\<close>, with minimum, optional maximum and greediness) or is the \<open>?\<close> on a
  group (\<open>Opt\<close>).
\<close>

datatype cset =
    Ch cu              \<comment> \<open>one character\<close>
  | Rng cu cu          \<comment> \<open>a range \<open>a-z\<close>\<close>
  | WS                 \<comment> \<open>\<open>\s\<close>\<close>
  | Dig                \<comment> \<open>\<open>\d\<close>\<close>
  | Dot                \<comment> \<open>\<open>.\<close>\<close>

datatype re =
    Lit jsstring                    \<comment> \<open>a run of literal characters\<close>
  | Atom "cset list"                \<comment> \<open>a class, or one of \<open>\s \d .\<close>\<close>
  | Rep "cset list" nat "nat option" bool
                                    \<comment> \<open>atom, minimum, maximum, greedy\<close>
  | Seq re re
  | Alt re re
  | Opt re                          \<comment> \<open>\<open>(?:r)?\<close>\<close>
  | Group nat re                    \<comment> \<open>the \<open>n\<close>-th capturing group\<close>
  | Look re                         \<comment> \<open>\<open>(?=r)\<close>\<close>
  | Bol                             \<comment> \<open>\<open>^\<close>\<close>
  | Eol                             \<comment> \<open>\<open>$\<close>\<close>
  | WordB                           \<comment> \<open>\<open>\b\<close>\<close>

fun seqs :: "re list \<Rightarrow> re" where
  "seqs [] = Lit []"
| "seqs [r] = r"
| "seqs (r # rs) = Seq r (seqs rs)"

fun alts :: "re list \<Rightarrow> re" where
  "alts [] = Lit []"
| "alts [r] = r"
| "alts (r # rs) = Alt r (alts rs)"

definition wsStar :: re where
  "wsStar = Rep [WS] 0 None True"

definition wsPlus :: re where
  "wsPlus = Rep [WS] 1 None True"

definition alpha :: "cset list" where
  "alpha = [Rng (cu CHR ''a'') (cu CHR ''z''), Rng (cu CHR ''A'') (cu CHR ''Z'')]"

text \<open>The number of capturing groups: the largest group index.\<close>

fun groupCount :: "re \<Rightarrow> nat" where
  "groupCount (Seq r1 r2) = max (groupCount r1) (groupCount r2)"
| "groupCount (Alt r1 r2) = max (groupCount r1) (groupCount r2)"
| "groupCount (Opt r) = groupCount r"
| "groupCount (Group n r) = max n (groupCount r)"
| "groupCount (Look r) = groupCount r"
| "groupCount _ = 0"

text \<open>
  Membership of a code unit in a class atom. Under \<open>ignoreCase\<close> a code unit matches
  when some member of the atom has the same canonical form.
\<close>

fun inCset :: "bool \<Rightarrow> cset \<Rightarrow> cu \<Rightarrow> bool" where
  "inCset ic (Ch p) c = (if ic then canonicalize p = canonicalize c else p = c)"
| "inCset ic (Rng lo hi) c =
     (if lo \<le> c \<and> c \<le> hi then True
      else if ic then list_ex (\<lambda>a. canonicalize a = canonicalize c) [lo..<Suc hi] else False)"
| "inCset ic WS c = isWhiteSpace c"
| "inCset ic Dig c = isDigit c"
| "inCset ic Dot c = (\<not> isLineTerminator c)"

definition inClass :: "bool \<Rightarrow> cset list \<Rightarrow> cu \<Rightarrow> bool" where
  "inClass ic cs c = list_ex (\<lambda>a. inCset ic a c) cs"

text \<open>
  The matcher state of the ECMAScript specification: the end index reached so far and
  the captures. The input is carried as the code unit before the current position (for
  \<open>\b\<close>) and the code units from the current position on.
\<close>

datatype mstate =
  MState (endIndex: nat) (lastCu: "cu option") (remaining: jsstring)
         (captures: "nat \<Rightarrow> jsstring option")

type_synonym cont = "mstate \<Rightarrow> mstate option"

definition startState :: "jsstring \<Rightarrow> mstate" where
  "startState s = MState 0 None s (\<lambda>_. None)"

definition setCaptures :: "(nat \<Rightarrow> jsstring option) \<Rightarrow> mstate \<Rightarrow> mstate" where
  "setCaptures k x = MState (endIndex x) (lastCu x) (remaining x) k"

text \<open>Consume one code unit if it satisfies the test.\<close>

definition step :: "(cu \<Rightarrow> bool) \<Rightarrow> mstate \<Rightarrow> mstate option" where
  "step P x =
     (case remaining x of
        [] \<Rightarrow> None
      | c # cs \<Rightarrow> if P c then Some (MState (Suc (endIndex x)) (Some c) cs (captures x)) else None)"

lemma step_shorter: "step P x = Some y \<Longrightarrow> length (remaining y) < length (remaining x)"
  by (auto simp: step_def split: list.splits if_splits)

text \<open>A run of literal characters.\<close>

fun lit :: "bool \<Rightarrow> jsstring \<Rightarrow> mstate \<Rightarrow> mstate option" where
  "lit ic [] x = Some x"
| "lit ic (p # ps) x =
     (case step (inCset ic (Ch p)) x of None \<Rightarrow> None | Some y \<Rightarrow> lit ic ps y)"

definition decr :: "nat option \<Rightarrow> nat option" where
  "decr mx = map_option (\<lambda>k. k - 1) mx"

text \<open>
  RepeatMatcher of the ECMAScript specification on a single-character atom: a greedy
  quantifier tries one more repetition before the continuation, a lazy one tries the
  continuation first; below the minimum a repetition is required.
\<close>

function greedy :: "(cu \<Rightarrow> bool) \<Rightarrow> nat \<Rightarrow> nat option \<Rightarrow> mstate \<Rightarrow> cont \<Rightarrow> mstate option" where
  "greedy P mn mx x c =
     (if mx = Some 0 then c x
      else case step P x of
             None \<Rightarrow> if mn = 0 then c x else None
           | Some y \<Rightarrow>
               (case greedy P (mn - 1) (decr mx) y c of
                  Some z \<Rightarrow> Some z
                | None \<Rightarrow> if mn = 0 then c x else None))"
  by pat_completeness auto
termination
  by (relation "measure (\<lambda>(P, mn, mx, x, c). length (remaining x))") (auto dest: step_shorter)

function lazy :: "(cu \<Rightarrow> bool) \<Rightarrow> nat \<Rightarrow> nat option \<Rightarrow> mstate \<Rightarrow> cont \<Rightarrow> mstate option" where
  "lazy P mn mx x c =
     (if mx = Some 0 then c x
      else if mn \<noteq> 0 then
             (case step P x of None \<Rightarrow> None | Some y \<Rightarrow> lazy P (mn - 1) (decr mx) y c)
      else case c x of
             Some z \<Rightarrow> Some z
           | None \<Rightarrow> (case step P x of None \<Rightarrow> None | Some y \<Rightarrow> lazy P 0 (decr mx) y c))"
  by pat_completeness auto
termination
  by (relation "measure (\<lambda>(P, mn, mx, x, c). length (remaining x))") (auto dest: step_shorter)

declare greedy.simps [simp del] lazy.simps [simp del]

text \<open>\<open>\b\<close>: exactly one of the code units around the position is a word character.\<close>

definition atWordBoundary :: "mstate \<Rightarrow> bool" where
  "atWordBoundary x =
     ((case lastCu x of None \<Rightarrow> False | Some a \<Rightarrow> isWordChar a)
      \<noteq> (case remaining x of [] \<Rightarrow> False | b # _ \<Rightarrow> isWordChar b))"

text \<open>
  The matcher of a pattern, in the continuation-passing form of the ECMAScript
  specification: \<open>matcher ic r x c\<close> matches \<open>r\<close> from state \<open>x\<close> and calls the
  continuation \<open>c\<close> on the state reached; when \<open>c\<close> fails it backtracks to the
  next way of matching \<open>r\<close>. \<open>ic\<close> is the \<open>i\<close> flag.
\<close>

fun matcher :: "bool \<Rightarrow> re \<Rightarrow> mstate \<Rightarrow> cont \<Rightarrow> mstate option" where
  "matcher ic (Lit ps) x c = (case lit ic ps x of None \<Rightarrow> None | Some y \<Rightarrow> c y)"
| "matcher ic (Atom cs) x c = (case step (inClass ic cs) x of None \<Rightarrow> None | Some y \<Rightarrow> c y)"
| "matcher ic (Rep cs mn mx g) x c =
     (if g then greedy (inClass ic cs) mn mx x c else lazy (inClass ic cs) mn mx x c)"
| "matcher ic (Seq r1 r2) x c = matcher ic r1 x (\<lambda>y. matcher ic r2 y c)"
| "matcher ic (Alt r1 r2) x c =
     (case matcher ic r1 x c of Some z \<Rightarrow> Some z | None \<Rightarrow> matcher ic r2 x c)"
| "matcher ic (Opt r) x c =
     (case matcher ic r x (\<lambda>y. if endIndex y = endIndex x then None else c y) of
        Some z \<Rightarrow> Some z
      | None \<Rightarrow> c x)"
| "matcher ic (Group n r) x c =
     matcher ic r x
       (\<lambda>y. c (setCaptures ((captures y)(n := Some (take (endIndex y - endIndex x) (remaining x)))) y))"
| "matcher ic (Look r) x c =
     (case matcher ic r x Some of None \<Rightarrow> None | Some y \<Rightarrow> c (setCaptures (captures y) x))"
| "matcher ic Bol x c = (if endIndex x = 0 then c x else None)"
| "matcher ic Eol x c = (if remaining x = [] then c x else None)"
| "matcher ic WordB x c = (if atWordBoundary x then c x else None)"

text \<open>
  The three continuations that \<open>matcher\<close> builds, by name: what follows in a sequence,
  the empty check of an optional group, and the end of a capturing group.
\<close>

definition seqK :: "bool \<Rightarrow> re \<Rightarrow> cont \<Rightarrow> cont" where
  "seqK ic r c = (\<lambda>y. matcher ic r y c)"

definition optK :: "mstate \<Rightarrow> cont \<Rightarrow> cont" where
  "optK x c = (\<lambda>y. if endIndex y = endIndex x then None else c y)"

definition grpK :: "nat \<Rightarrow> mstate \<Rightarrow> cont \<Rightarrow> cont" where
  "grpK n x c =
     (\<lambda>y. c (setCaptures ((captures y)(n := Some (take (endIndex y - endIndex x) (remaining x)))) y))"

text \<open>A match attempt at the current position, with the captures cleared.\<close>

definition matchAt :: "bool \<Rightarrow> re \<Rightarrow> mstate \<Rightarrow> mstate option" where
  "matchAt ic r x = matcher ic r (setCaptures (\<lambda>_. None) x) Some"

text \<open>Move one code unit forward without matching.\<close>

definition advance :: "mstate \<Rightarrow> mstate" where
  "advance x =
     (case remaining x of
        [] \<Rightarrow> x
      | c # cs \<Rightarrow> MState (Suc (endIndex x)) (Some c) cs (captures x))"

text \<open>
  The match array of \<open>exec\<close> and \<open>match\<close>: the matched text, then the capture of each
  group (\<open>None\<close> is \<open>undefined\<close>). Reading an index beyond the array is
  \<open>undefined\<close> too.
\<close>

type_synonym matchArray = "jsstring option list"

definition matchArray :: "re \<Rightarrow> mstate \<Rightarrow> mstate \<Rightarrow> matchArray" where
  "matchArray r x y =
     Some (take (endIndex y - endIndex x) (remaining x)) # map (captures y) [1..<Suc (groupCount r)]"

definition grp :: "matchArray \<Rightarrow> nat \<Rightarrow> jsstring option" where
  "grp m i = (if i < length m then m ! i else None)"

text \<open>
  The search of \<open>RegExpBuiltinExec\<close>: the first position at or after the current one
  where the pattern matches, as the state where the match starts and the state where it
  ends.
\<close>

function search :: "bool \<Rightarrow> re \<Rightarrow> mstate \<Rightarrow> (mstate \<times> mstate) option" where
  "search ic r x =
     (case matchAt ic r x of
        Some y \<Rightarrow> Some (x, y)
      | None \<Rightarrow> (case remaining x of [] \<Rightarrow> None | c # cs \<Rightarrow> search ic r (advance x)))"
  by pat_completeness auto
termination
  by (relation "measure (\<lambda>(ic, r, x). length (remaining x))") (auto simp: advance_def)

declare search.simps [simp del]

text \<open>\<open>s.match(/r/)\<close> with a pattern that is not global.\<close>

definition matchFirst :: "bool \<Rightarrow> re \<Rightarrow> jsstring \<Rightarrow> matchArray option" where
  "matchFirst ic r s =
     (case search ic r (startState s) of None \<Rightarrow> None | Some (x, y) \<Rightarrow> Some (matchArray r x y))"

text \<open>
  The loop \<open>while ((match = pattern.exec(text)) !== null)\<close> over a global pattern:
  every search starts where the previous match ended. The patterns this is used with
  consume at least one code unit per match (lemma \<open>structured_match_advances\<close> below), so
  the last branch, a match that does not advance, is never taken.
\<close>

function execAll :: "bool \<Rightarrow> re \<Rightarrow> mstate \<Rightarrow> matchArray list" where
  "execAll ic r x =
     (case search ic r x of
        None \<Rightarrow> []
      | Some (s, y) \<Rightarrow>
          if length (remaining y) < length (remaining x) then matchArray r s y # execAll ic r y
          else [matchArray r s y])"
  by pat_completeness auto
termination
  by (relation "measure (\<lambda>(ic, r, x). length (remaining x))") auto

declare execAll.simps [simp del]

section \<open>String.prototype.replace with a global pattern\<close>

text \<open>
  \<open>s.replace(/r/g, t)\<close>: scan from the left; at each position try the pattern; a
  match is replaced by the expansion of the template and scanning resumes after it (one
  code unit further on when the match is empty); an unmatched code unit is copied.
  A template is a list of pieces: literal text or \<open>$n\<close>.
\<close>

datatype piece = Txt jsstring | Cap nat

fun expand :: "piece list \<Rightarrow> mstate \<Rightarrow> jsstring" where
  "expand [] y = []"
| "expand (Txt t # ps) y = t @ expand ps y"
| "expand (Cap n # ps) y = (case captures y n of None \<Rightarrow> [] | Some t \<Rightarrow> t) @ expand ps y"

function replaceFrom :: "bool \<Rightarrow> re \<Rightarrow> piece list \<Rightarrow> mstate \<Rightarrow> jsstring" where
  "replaceFrom ic r t x =
     (case matchAt ic r x of
        Some y \<Rightarrow>
          if length (remaining y) < length (remaining x) then expand t y @ replaceFrom ic r t y
          else expand t y @
               (case remaining x of [] \<Rightarrow> [] | c # cs \<Rightarrow> c # replaceFrom ic r t (advance x))
      | None \<Rightarrow>
          (case remaining x of [] \<Rightarrow> [] | c # cs \<Rightarrow> c # replaceFrom ic r t (advance x)))"
  by pat_completeness auto
termination
  by (relation "measure (\<lambda>(ic, r, t, x). length (remaining x))") (auto simp: advance_def)

declare replaceFrom.simps [simp del]

definition replaceAll :: "bool \<Rightarrow> re \<Rightarrow> piece list \<Rightarrow> jsstring \<Rightarrow> jsstring" where
  "replaceAll ic r t s = replaceFrom ic r t (startState s)"

section \<open>String.prototype.split with a pattern\<close>

text \<open>
  \<open>s.split(/r/)\<close> for a pattern without capturing groups: the pattern is tried at
  each position \<open>q\<close> of a non-empty string; a match ending at \<open>e\<close> cuts the piece
  collected since the last cut \<open>p\<close>, unless \<open>e = p\<close>; the rest of the string is the
  last piece. \<open>acc\<close> is the piece from \<open>p\<close> to \<open>q\<close>.
\<close>

function splitFrom :: "bool \<Rightarrow> re \<Rightarrow> jsstring \<Rightarrow> mstate \<Rightarrow> jsstring list" where
  "splitFrom ic r acc x =
     (case remaining x of
        [] \<Rightarrow> [acc]
      | c # cs \<Rightarrow>
          (case matchAt ic r x of
             None \<Rightarrow> splitFrom ic r (acc @ [c]) (advance x)
           | Some y \<Rightarrow>
               if endIndex y + length acc = endIndex x \<or> length (remaining x) < length (remaining y)
               then splitFrom ic r (acc @ [c]) (advance x)
               else if acc = [] then splitFrom ic r (acc @ [c]) (advance x)
               else acc # splitFrom ic r [] y))"
  by pat_completeness auto
termination
  by (relation "measure (\<lambda>(ic, r, acc, x). 2 * length (remaining x) + (if acc = [] then 0 else 1))")
     (auto simp: advance_def)

declare splitFrom.simps [simp del]

definition split :: "bool \<Rightarrow> re \<Rightarrow> jsstring \<Rightarrow> jsstring list" where
  "split ic r s =
     (if s = [] then (case matchAt ic r (startState s) of None \<Rightarrow> [s] | Some y \<Rightarrow> [])
      else splitFrom ic r [] (startState s))"

section \<open>PDFParser.fixLigatures\<close>

text \<open>
  Every statement of \<open>fixLigatures\<close> is \<open>result = result.replace(/r/g, t)\<close>, with or
  without the \<open>i\<close> flag: a rule is the flag, the pattern and the template. The rules
  are listed in the order of the source, under the headings of its comments.
  \<open>glyph c t\<close> is \<open>/\uXXXX/g\<close> and \<open>word [p1, p2, ...] t\<close> is
  \<open>/p1\s*p2\s*.../gi\<close>.
\<close>

datatype rule = Rule bool re "piece list"

fun applyRule :: "rule \<Rightarrow> jsstring \<Rightarrow> jsstring" where
  "applyRule (Rule ic r t) s = replaceAll ic r t s"

definition glyph :: "cu \<Rightarrow> string \<Rightarrow> rule" where
  "glyph c t = Rule False (Lit [c]) [Txt (asc t)]"

fun wordRe :: "string list \<Rightarrow> re" where
  "wordRe [] = Lit []"
| "wordRe [p] = Lit (asc p)"
| "wordRe (p # ps) = Seq (Lit (asc p)) (Seq wsStar (wordRe ps))"

definition word :: "string list \<Rightarrow> string \<Rightarrow> rule" where
  "word ps t = Rule True (wordRe ps) [Txt (asc t)]"

definition glyphRules :: "rule list" where
  "glyphRules =
    [glyph 0x0398 ''ti'',
     glyph 0x03B8 ''ti'',
     glyph 0x019F ''ti'',
     glyph 0x0275 ''ti'',
     glyph 0x03A3 ''tt'',
     glyph 0x03C3 ''tt'',
     glyph 0x03C2 ''tt'',
     glyph 0x00D5 ''ft'',
     glyph 0x00F5 ''ft'',
     glyph 0x0192 ''f'',
     glyph 0x00B5 ''u'']"

definition ftWordRules :: "rule list" where
  "ftWordRules =
    [word [''so'', ''ft'', ''ware''] ''software'',
     Rule True (seqs [Lit (asc ''so''), wsStar, Lit [0xD5], wsStar, Lit (asc ''ware'')]) [Txt (asc ''software'')],
     word [''hard'', ''ware''] ''hardware'',
     word [''a'', ''ft'', ''er''] ''after'',
     word [''le'', ''ft''] ''left'',
     word [''shi'', ''ft''] ''shift'',
     word [''dra'', ''ft''] ''draft'',
     word [''cra'', ''ft''] ''craft'',
     word [''swi'', ''ft''] ''swift'',
     word [''li'', ''ft''] ''lift'',
     word [''gi'', ''ft''] ''gift'']"

definition ligatureRules :: "rule list" where
  "ligatureRules =
    [glyph 0xFB01 ''fi'',
     glyph 0xFB02 ''fl'',
     glyph 0xFB03 ''ffi'',
     glyph 0xFB04 ''ffl'',
     glyph 0xFB05 ''st'',
     glyph 0xFB06 ''st'']"

definition quoteRules :: "rule list" where
  "quoteRules =
    [glyph 0x2018 [CHR 0x27],
     glyph 0x2019 [CHR 0x27],
     glyph 0x201C [CHR 0x22],
     glyph 0x201D [CHR 0x22]]"

definition dashRules :: "rule list" where
  "dashRules =
    [glyph 0x2013 ''-'',
     glyph 0x2014 ''-'',
     glyph 0x2026 ''...'']"

definition spaceRules :: "rule list" where
  "spaceRules =
    [glyph 0x00A0 '' '',
     glyph 0x2003 '' '',
     glyph 0x2002 '' '',
     glyph 0x2009 '' '',
     glyph 0x200B '''',
     glyph 0x00AD '''',
     glyph 0xFEFF '''']"

definition ttWordRules :: "rule list" where
  "ttWordRules =
    [word [''a'', ''tt'', ''ributes''] ''attributes'',
     word [''a'', ''tt'', ''ribute''] ''attribute'',
     word [''a'', ''tt'', ''ribut''] ''attribut'',
     word [''a'', ''tt'', ''ack''] ''attack'',
     word [''a'', ''tt'', ''acker''] ''attacker'',
     word [''a'', ''tt'', ''ach''] ''attach'',
     word [''a'', ''tt'', ''ached''] ''attached'',
     word [''a'', ''tt'', ''achment''] ''attachment'',
     word [''a'', ''tt'', ''empt''] ''attempt'',
     word [''a'', ''tt'', ''en''] ''atten'',
     word [''be'', ''tt'', ''er''] ''better'',
     word [''bu'', ''tt'', ''on''] ''button'',
     word [''le'', ''tt'', ''er''] ''letter'',
     word [''pa'', ''tt'', ''ern''] ''pattern'',
     word [''ma'', ''tt'', ''er''] ''matter'',
     word [''se'', ''tt'', ''ing''] ''setting'',
     word [''ge'', ''tt'', ''ing''] ''getting'',
     word [''pu'', ''tt'', ''ing''] ''putting'',
     word [''wri'', ''tt'', ''en''] ''written'',
     word [''permi'', ''tt'', ''ed''] ''permitted'',
     word [''transmi'', ''tt'', ''ed''] ''transmitted'',
     word [''emi'', ''tt'', ''ed''] ''emitted'',
     word [''submi'', ''tt'', ''ed''] ''submitted'',
     word [''commi'', ''tt'', ''ed''] ''committed'',
     word [''forma'', ''tt'', ''ed''] ''formatted'',
     word [''forma'', ''tt'', ''ing''] ''formatting'',
     word [''bo'', ''tt'', ''om''] ''bottom'',
     word [''bo'', ''tt'', ''le''] ''bottle'',
     word [''sca'', ''tt'', ''er''] ''scatter'',
     word [''bi'', ''tt'', ''er''] ''bitter'',
     word [''li'', ''tt'', ''le''] ''little'',
     word [''ba'', ''tt'', ''le''] ''battle'',
     word [''ne'', ''tt'', ''work''] ''nettwork'',
     word [''co'', ''tt'', ''on''] ''cotton'',
     word [''ki'', ''tt'', ''en''] ''kitten'',
     word [''bi'', ''tt'', ''en''] ''bitten'',
     word [''hi'', ''tt'', ''ing''] ''hitting'',
     word [''si'', ''tt'', ''ing''] ''sitting'',
     word [''cu'', ''tt'', ''ing''] ''cutting'',
     word [''spi'', ''tt'', ''ing''] ''spitting'',
     word [''spli'', ''tt'', ''ing''] ''splitting'',
     word [''omi'', ''tt'', ''ing''] ''omitting'',
     word [''admi'', ''tt'', ''ing''] ''admitting'',
     word [''permi'', ''tt'', ''ing''] ''permitting'']"

definition tiWordRules :: "rule list" where
  "tiWordRules =
    [word [''inser'', ''ti'', ''on''] ''insertion'',
     word [''dele'', ''ti'', ''on''] ''deletion'',
     word [''alloca'', ''ti'', ''on''] ''allocation'',
     word [''selec'', ''ti'', ''on''] ''selection'',
     word [''collec'', ''ti'', ''on''] ''collection'',
     word [''connec'', ''ti'', ''on''] ''connection'',
     word [''protec'', ''ti'', ''on''] ''protection'',
     word [''detec'', ''ti'', ''on''] ''detection'',
     word [''direc'', ''ti'', ''on''] ''direction'',
     word [''correc'', ''ti'', ''on''] ''correction'',
     word [''restric'', ''ti'', ''on''] ''restriction'',
     word [''abstrac'', ''ti'', ''on''] ''abstraction'',
     word [''transac'', ''ti'', ''on''] ''transaction'',
     word [''interac'', ''ti'', ''on''] ''interaction'',
     word [''subtrac'', ''ti'', ''on''] ''subtraction'',
     word [''extrac'', ''ti'', ''on''] ''extraction'',
     word [''produc'', ''ti'', ''on''] ''production'',
     word [''reduc'', ''ti'', ''on''] ''reduction'',
     word [''induc'', ''ti'', ''on''] ''induction'',
     word [''deduc'', ''ti'', ''on''] ''deduction'',
     word [''introduc'', ''ti'', ''on''] ''introduction'',
     word [''loca'', ''ti'', ''ng''] ''locating'',
     word [''correc'', ''ti'', ''ng''] ''correcting'',
     word [''tes'', ''ti'', ''ng''] ''testing'',
     word [''valida'', ''ti'', ''on''] ''validation'',
     word [''execu'', ''ti'', ''on''] ''execution'',
     word [''func'', ''ti'', ''on''] ''function'',
     word [''op'', ''ti'', ''on''] ''option'',
     word [''sec'', ''ti'', ''on''] ''section'',
     word [''ac'', ''ti'', ''on''] ''action'',
     word [''condi'', ''ti'', ''on''] ''condition'',
     word [''itera'', ''ti'', ''on''] ''iteration'',
     word [''opera'', ''ti'', ''on''] ''operation'',
     word [''applica'', ''ti'', ''on''] ''application'',
     word [''declara'', ''ti'', ''on''] ''declaration'',
     word [''defini'', ''ti'', ''on''] ''definition'',
     word [''instruc'', ''ti'', ''on''] ''instruction'',
     word [''no'', ''ti'', ''fica'', ''ti'', ''on''] ''notification'',
     word [''authen'', ''ti'', ''ca'', ''ti'', ''on''] ''authentication'',
     word [''iden'', ''ti'', ''fica'', ''ti'', ''on''] ''identification'',
     word [''ini'', ''ti'', ''aliza'', ''ti'', ''on''] ''initialization'',
     word [''iden'', ''ti'', ''fy''] ''identify'',
     word [''iden'', ''ti'', ''fied''] ''identified'',
     word [''iden'', ''ti'', ''fier''] ''identifier'',
     word [''iden'', ''ti'', ''fies''] ''identifies'',
     word [''iden'', ''ti'', ''ty''] ''identity'',
     word [''quan'', ''ti'', ''ty''] ''quantity'',
     word [''en'', ''ti'', ''ty''] ''entity'',
     word [''en'', ''ti'', ''ties''] ''entities'',
     word [''uniqu''] ''uniqu'',
     word [''uni'', ''que'', ''ly''] ''uniquely'',
     word [''prac'', ''ti'', ''ce''] ''practice'',
     word [''prac'', ''ti'', ''cal''] ''practical'',
     word [''par'', ''ti'', ''al''] ''partial'',
     word [''ini'', ''ti'', ''al''] ''initial'',
     word [''essen'', ''ti'', ''al''] ''essential'',
     word [''poten'', ''ti'', ''al''] ''potential'',
     word [''sequen'', ''ti'', ''al''] ''sequential'',
     word [''mul'', ''ti'', ''ple''] ''multiple'',
     word [''posi'', ''ti'', ''ve''] ''positive'',
     word [''nega'', ''ti'', ''ve''] ''negative'',
     word [''rela'', ''ti'', ''ve''] ''relative'',
     word [''primi'', ''ti'', ''ve''] ''primitive'',
     word [''execu'', ''ti'', ''ve''] ''executive'',
     word [''itera'', ''ti'', ''ve''] ''iterative'',
     word [''transi'', ''ti'', ''ve''] ''transitive'',
     word [''sensi'', ''ti'', ''ve''] ''sensitive'',
     word [''effec'', ''ti'', ''ve''] ''effective'',
     word [''selec'', ''ti'', ''ve''] ''selective'',
     word [''objec'', ''ti'', ''ve''] ''objective'',
     word [''subjec'', ''ti'', ''ve''] ''subjective'',
     word [''addic'', ''ti'', ''ve''] ''addictive'',
     word [''predic'', ''ti'', ''ve''] ''predictive'',
     word [''restric'', ''ti'', ''ve''] ''restrictive'',
     word [''descrip'', ''ti'', ''ve''] ''descriptive'',
     word [''produc'', ''ti'', ''ve''] ''productive'',
     word [''destruc'', ''ti'', ''ve''] ''destructive'',
     word [''instruc'', ''ti'', ''ve''] ''instructive'',
     word [''construc'', ''ti'', ''ve''] ''constructive'',
     word [''alterna'', ''ti'', ''ve''] ''alternative'',
     word [''quan'', ''ti'', ''ta'', ''ti'', ''ve''] ''quantitative'',
     word [''quali'', ''ta'', ''ti'', ''ve''] ''qualitative'',
     word [''coopera'', ''ti'', ''ve''] ''cooperative'',
     word [''repre'', ''sen'', ''ta'', ''ti'', ''ve''] ''representative'',
     word [''automa'', ''ti'', ''c''] ''automatic'',
     word [''pragma'', ''ti'', ''c''] ''pragmatic'',
     word [''sta'', ''ti'', ''c''] ''static'',
     word [''compe'', ''ti'', ''ti'', ''ve''] ''competitive'',
     word [''sor'', ''ti'', ''ng''] ''sorting'',
     word [''prin'', ''ti'', ''ng''] ''printing'',
     word [''wri'', ''ti'', ''ng''] ''writing'',
     word [''edi'', ''ti'', ''ng''] ''editing'',
     word [''compu'', ''ti'', ''ng''] ''computing'',
     word [''coun'', ''ti'', ''ng''] ''counting'',
     word [''poin'', ''ti'', ''ng''] ''pointing'',
     word [''selec'', ''ti'', ''ng''] ''selecting'',
     word [''crea'', ''ti'', ''ng''] ''creating'',
     word [''dele'', ''ti'', ''ng''] ''deleting'',
     word [''upda'', ''ti'', ''ng''] ''updating'',
     word [''forma'', ''tti'', ''ng''] ''formatting'',
     word [''connec'', ''ti'', ''ng''] ''connecting'',
     word [''conver'', ''ti'', ''ng''] ''converting'',
     word [''represen'', ''ti'', ''ng''] ''representing'',
     word [''itera'', ''ti'', ''ng''] ''iterating'',
     word [''opera'', ''ti'', ''ng''] ''operating'',
     word [''genera'', ''ti'', ''ng''] ''generating'',
     word [''naviga'', ''ti'', ''ng''] ''navigating'',
     word [''calcula'', ''ti'', ''ng''] ''calculating'',
     word [''simula'', ''ti'', ''ng''] ''simulating'',
     word [''evalua'', ''ti'', ''ng''] ''evaluating'',
     word [''valida'', ''ti'', ''ng''] ''validating'',
     word [''communica'', ''ti'', ''ng''] ''communicating'',
     word [''demonstra'', ''ti'', ''ng''] ''demonstrating'',
     word [''termina'', ''ti'', ''ng''] ''terminating'',
     word [''origina'', ''ti'', ''ng''] ''originating'',
     word [''redirec'', ''ti'', ''ng''] ''redirecting'',
     word [''predic'', ''ti'', ''ng''] ''predicting'',
     word [''restar'', ''ti'', ''ng''] ''restarting'',
     word [''star'', ''ti'', ''ng''] ''starting'',
     word [''expor'', ''ti'', ''ng''] ''exporting'',
     word [''impor'', ''ti'', ''ng''] ''importing'',
     word [''suppor'', ''ti'', ''ng''] ''supporting'',
     word [''repor'', ''ti'', ''ng''] ''reporting'',
     word [''asser'', ''ti'', ''ng''] ''asserting'',
     word [''inser'', ''ti'', ''ng''] ''inserting'',
     word [''conver'', ''ti'', ''ng''] ''converting'',
     word [''inver'', ''ti'', ''ng''] ''inverting'',
     word [''rever'', ''ti'', ''ng''] ''reverting'',
     word [''diver'', ''ti'', ''ng''] ''diverting'',
     word [''adver'', ''ti'', ''sing''] ''advertising'',
     word [''par'', ''ti'', ''ti'', ''oning''] ''partitioning'',
     word [''alterna'', ''ti'', ''ng''] ''alternating'',
     word [''repor'', ''ti'', ''ng''] ''reporting'',
     word [''implemen'', ''ti'', ''ng''] ''implementing'',
     word [''documen'', ''ti'', ''ng''] ''documenting'']"

definition fiWordRules :: "rule list" where
  "fiWordRules =
    [word [''de'', ''fi'', ''ne''] ''define'',
     word [''de'', ''fi'', ''ned''] ''defined'',
     word [''de'', ''fi'', ''ni'', ''ti'', ''on''] ''definition'',
     word [''fi'', ''le''] ''file'',
     word [''fi'', ''les''] ''files'',
     word [''fi'', ''nd''] ''find'',
     word [''fi'', ''rst''] ''first'',
     word [''speci'', ''fi'', ''c''] ''specific'',
     word [''speci'', ''fi'', ''ca'', ''ti'', ''on''] ''specification'',
     word [''modi'', ''fi'', ''er''] ''modifier'',
     word [''modi'', ''fi'', ''ca'', ''ti'', ''on''] ''modification'',
     word [''identi'', ''fi'', ''er''] ''identifier'',
     word [''classi'', ''fi'', ''ca'', ''ti'', ''on''] ''classification'',
     word [''encryp'', ''ti'', ''on''] ''encryption'',
     word [''decryp'', ''ti'', ''on''] ''decryption'']"

definition flWordRules :: "rule list" where
  "flWordRules =
    [Rule True (seqs [WordB, Lit (asc ''fl''), wsPlus, Lit (asc ''ow''), WordB]) [Txt (asc ''flow'')],
     Rule True (seqs [WordB, Lit (asc ''fl''), wsPlus, Lit (asc ''oat''), WordB]) [Txt (asc ''float'')],
     Rule True (seqs [WordB, Lit (asc ''fl''), wsPlus, Lit (asc ''ag''), WordB]) [Txt (asc ''flag'')]]"

definition additionalWordRules :: "rule list" where
  "additionalWordRules =
    [word [''exis'', ''ti'', ''ng''] ''existing'',
     word [''run'', ''ti'', ''me''] ''runtime'',
     word [''life'', ''ti'', ''me''] ''lifetime'',
     word [''some'', ''ti'', ''me''] ''sometime'',
     word [''mean'', ''ti'', ''me''] ''meantime'',
     word [''over'', ''ti'', ''me''] ''overtime'',
     word [''par'', ''ti'', ''ti'', ''on''] ''partition'',
     word [''repe'', ''ti'', ''ti'', ''on''] ''repetition'',
     word [''compe'', ''ti'', ''ti'', ''on''] ''competition'',
     word [''addi'', ''ti'', ''on''] ''addition'',
     word [''edi'', ''ti'', ''on''] ''edition'',
     word [''posi'', ''ti'', ''on''] ''position'',
     word [''transi'', ''ti'', ''on''] ''transition'',
     word [''acquisi'', ''ti'', ''on''] ''acquisition'',
     word [''propor'', ''ti'', ''on''] ''proportion'',
     word [''solu'', ''ti'', ''on''] ''solution'',
     word [''resolu'', ''ti'', ''on''] ''resolution'',
     word [''evolu'', ''ti'', ''on''] ''evolution'',
     word [''revolu'', ''ti'', ''on''] ''revolution'',
     word [''distribu'', ''ti'', ''on''] ''distribution'',
     word [''contribu'', ''ti'', ''on''] ''contribution'',
     word [''substitu'', ''ti'', ''on''] ''substitution'',
     word [''constitu'', ''ti'', ''on''] ''constitution'',
     word [''institu'', ''ti'', ''on''] ''institution'',
     word [''prosecu'', ''ti'', ''on''] ''prosecution'',
     word [''descrip'', ''ti'', ''on''] ''description'',
     word [''prescrip'', ''ti'', ''on''] ''prescription'',
     word [''subscrip'', ''ti'', ''on''] ''subscription'',
     word [''op'', ''ti'', ''miza'', ''ti'', ''on''] ''optimization'',
     word [''realiza'', ''ti'', ''on''] ''realization'',
     word [''organiza'', ''ti'', ''on''] ''organization'',
     word [''authoriza'', ''ti'', ''on''] ''authorization'',
     word [''visualiza'', ''ti'', ''on''] ''visualization'',
     word [''normaliza'', ''ti'', ''on''] ''normalization'',
     word [''synchroniza'', ''ti'', ''on''] ''synchronization'',
     word [''serializa'', ''ti'', ''on''] ''serialization'',
     word [''virtualiza'', ''ti'', ''on''] ''virtualization'',
     word [''localiza'', ''ti'', ''on''] ''localization'',
     word [''globaliza'', ''ti'', ''on''] ''globalization'',
     word [''customiza'', ''ti'', ''on''] ''customization'',
     word [''veri'', ''fi'', ''ca'', ''ti'', ''on''] ''verification'',
     word [''no'', ''ti'', ''ce''] ''notice'',
     word [''prac'', ''ti'', ''se''] ''practise'',
     word [''ar'', ''ti'', ''cle''] ''article'',
     word [''par'', ''ti'', ''cle''] ''particle'',
     word [''ver'', ''ti'', ''cal''] ''vertical'',
     word [''ar'', ''ti'', ''fi'', ''cial''] ''artificial'',
     word [''iden'', ''ti'', ''cal''] ''identical'',
     word [''cri'', ''ti'', ''cal''] ''critical'',
     word [''analy'', ''ti'', ''cal''] ''analytical'',
     word [''poli'', ''ti'', ''cal''] ''political'',
     word [''theore'', ''ti'', ''cal''] ''theoretical'',
     word [''alphabe'', ''ti'', ''cal''] ''alphabetical'',
     word [''gramma'', ''ti'', ''cal''] ''grammatical'',
     word [''mathema'', ''ti'', ''cal''] ''mathematical'',
     word [''statis'', ''ti'', ''cal''] ''statistical'',
     word [''systema'', ''ti'', ''c''] ''systematic'',
     word [''problema'', ''ti'', ''c''] ''problematic'',
     word [''schema'', ''ti'', ''c''] ''schematic'',
     word [''diagramma'', ''ti'', ''c''] ''diagrammatic'',
     word [''chroma'', ''ti'', ''c''] ''chromatic'',
     word [''aroma'', ''ti'', ''c''] ''aromatic'',
     word [''diploma'', ''ti'', ''c''] ''diplomatic'',
     word [''characteris'', ''ti'', ''c''] ''characteristic'',
     word [''heuris'', ''ti'', ''c''] ''heuristic'',
     word [''determinis'', ''ti'', ''c''] ''deterministic'',
     word [''probabilis'', ''ti'', ''c''] ''probabilistic'',
     word [''linguis'', ''ti'', ''c''] ''linguistic'',
     word [''realis'', ''ti'', ''c''] ''realistic'',
     word [''op'', ''ti'', ''mis'', ''ti'', ''c''] ''optimistic'',
     word [''pessimis'', ''ti'', ''c''] ''pessimistic'',
     word [''stochas'', ''ti'', ''c''] ''stochastic'']"

definition specificWordRules :: "rule list" where
  "specificWordRules =
    [word [''rec'', ''ti'', ''fi''] ''rectifi'',
     word [''cer'', ''ti'', ''fi''] ''certifi'',
     word [''jus'', ''ti'', ''fi''] ''justifi'',
     word [''ra'', ''ti'', ''o''] ''ratio'',
     word [''pa'', ''ti'', ''ent''] ''patient'',
     word [''quo'', ''ti'', ''ent''] ''quotient'',
     word [''ingredi'', ''ent''] ''ingredient'',
     word [''parti'', ''cular''] ''particular'',
     word [''ar'', ''ti'', ''fact''] ''artifact'',
     word [''mul'', ''ti'', ''pli''] ''multipli'',
     word [''op'', ''ti'', ''m''] ''optim'',
     word [''ac'', ''ti'', ''v''] ''activ'',
     word [''reac'', ''ti'', ''v''] ''reactiv'',
     word [''proac'', ''ti'', ''v''] ''proactiv'',
     word [''interac'', ''ti'', ''v''] ''interactiv'',
     word [''cap'', ''ti'', ''v''] ''captiv'',
     word [''na'', ''ti'', ''v''] ''nativ'',
     word [''mo'', ''ti'', ''v''] ''motiv'',
     word [''ini'', ''ti'', ''at''] ''initiat'',
     word [''ne'', ''go'', ''ti'', ''at''] ''negotiat'',
     word [''differen'', ''ti'', ''at''] ''differentiat'',
     word [''authen'', ''ti'', ''cat''] ''authenticat'',
     word [''domes'', ''ti'', ''c''] ''domestic'',
     word [''elas'', ''ti'', ''c''] ''elastic'',
     word [''fantas'', ''ti'', ''c''] ''fantastic'',
     word [''dras'', ''ti'', ''c''] ''drastic'',
     word [''plas'', ''ti'', ''c''] ''plastic'',
     word [''tac'', ''ti'', ''c''] ''tactic'',
     word [''synthe'', ''ti'', ''c''] ''synthetic'',
     word [''gene'', ''ti'', ''c''] ''genetic'',
     word [''magne'', ''ti'', ''c''] ''magnetic'',
     word [''aesthe'', ''ti'', ''c''] ''aesthetic'',
     word [''seman'', ''ti'', ''c''] ''semantic'',
     word [''authen'', ''ti'', ''c''] ''authentic'',
     word [''iden'', ''ti'', ''c''] ''identic'']"

definition catchAllRules :: "rule list" where
  "catchAllRules =
    [Rule False (seqs [Group 1 (Rep alpha 2 None True), wsPlus, Lit (asc ''ti''), wsPlus, Group 2 (Rep alpha 2 None True)]) [Cap 1, Txt (asc ''ti''), Cap 2],
     Rule False (seqs [Group 1 (Rep alpha 1 None True), wsPlus, Lit (asc ''tt''), wsPlus, Group 2 (Rep alpha 2 None True)]) [Cap 1, Txt (asc ''tt''), Cap 2],
     Rule False (seqs [Group 1 (Rep alpha 3 None True), Lit (asc ''ti''), wsPlus, Group 2 (Rep alpha 2 None True)]) [Cap 1, Txt (asc ''ti''), Cap 2],
     Rule False (seqs [Group 1 (Rep alpha 2 None True), wsPlus, Lit (asc ''ti''), Group 2 (Rep alpha 2 None True)]) [Cap 1, Txt (asc ''ti''), Cap 2],
     Rule False (seqs [Group 1 (Rep alpha 1 None True), Lit (asc ''tt''), wsPlus, Group 2 (Rep alpha 2 None True)]) [Cap 1, Txt (asc ''tt''), Cap 2],
     Rule False (seqs [Group 1 (Rep alpha 1 None True), wsPlus, Lit (asc ''tt''), Group 2 (Rep alpha 2 None True)]) [Cap 1, Txt (asc ''tt''), Cap 2]]"

definition fixRules :: "rule list" where
  "fixRules =
     glyphRules @ ftWordRules @ ligatureRules @ quoteRules @ dashRules @ spaceRules
     @ ttWordRules @ tiWordRules @ fiWordRules @ flWordRules @ additionalWordRules
     @ specificWordRules @ catchAllRules"

definition fixLigatures :: "jsstring \<Rightarrow> jsstring" where
  "fixLigatures text = (if text = [] then [] else fold applyRule fixRules text)"

section \<open>PDFParser.cleanText\<close>

definition digits0 :: re where
  "digits0 = Rep [Dig] 0 None True"

definition digits1 :: re where
  "digits1 = Rep [Dig] 1 None True"

text \<open>The watermark and page marker patterns, all \<open>/gi\<close> and replaced by nothing.\<close>

definition watermarkRules :: "rule list" where
  "watermarkRules =
    [Rule True (seqs [Lit (asc ''The''), wsStar, Lit (asc ''Mann''), wsStar, Lit (asc ''Maker''), wsStar,
                      Lit (asc ''|''), wsStar, Lit (asc ''RANJAN''), wsStar, Lit (asc ''KALINDI''), wsStar,
                      digits0]) [],
     Rule True (seqs [Lit (asc ''RANJAN''), wsStar, Lit (asc ''KALINDI''), wsStar, digits0]) [],
     Rule True (seqs [Lit (asc ''The''), wsStar, Lit (asc ''Mann''), wsStar, Lit (asc ''Maker'')]) [],
     Rule True (seqs [Lit (asc ''Page''), wsStar, digits1, wsStar, Lit (asc ''of''), wsStar, digits1]) [],
     Rule True (seqs [Lit (asc ''www.''),
                      Rep [Rng (cu CHR ''a'') (cu CHR ''z''), Rng (cu CHR ''A'') (cu CHR ''Z''),
                           Rng (cu CHR ''0'') (cu CHR ''9''), Ch (cu CHR ''.''), Ch (cu CHR ''-'')]
                          1 None True,
                      Lit (asc ''.''),
                      Group 1 (alts [Lit (asc ''com''), Lit (asc ''org''), Lit (asc ''net''),
                                     Lit (asc ''in'')])]) []]"

text \<open>\<open>.replace(/\s+/g, ' ')\<close> and \<open>.replace(/^\s+|\s+$/g, '')\<close>.\<close>

definition collapseRule :: rule where
  "collapseRule = Rule False wsPlus [Txt (asc '' '')]"

definition edgeRule :: rule where
  "edgeRule = Rule False (Alt (Seq Bol wsPlus) (Seq wsPlus Eol)) []"

definition cleanText :: "jsstring \<Rightarrow> jsstring" where
  "cleanText text =
     (if text = [] then []
      else trim (applyRule edgeRule (applyRule collapseRule
             (fold applyRule watermarkRules (fixLigatures text)))))"

section \<open>PDFParser.parseQuestions\<close>

text \<open>
  A question record. The four fields of the \<open>options\<close> object are the fields
  \<open>optA\<close> to \<open>optD\<close>.
\<close>

record question =
  qid :: jsstring
  number :: nat
  questionText :: jsstring
  optA :: jsstring
  optB :: jsstring
  optC :: jsstring
  optD :: jsstring
  answer :: jsstring
  source :: jsstring

text \<open>
  The normalised text of \<open>parseQuestions\<close>:
  \<open>fixLigatures(text).replace(/\s+/g, ' ').replace(/\r\n/g, '\n').trim()\<close>.
\<close>

definition crlfRule :: rule where
  "crlfRule = Rule False (Lit [13, 10]) [Txt [10]]"

definition normalize :: "jsstring \<Rightarrow> jsstring" where
  "normalize text = trim (applyRule crlfRule (applyRule collapseRule (fixLigatures text)))"

text \<open>The pieces shared by the patterns of the parser.\<close>

definition qPrefix :: re where
  \<comment> \<open>\<open>(?:Q\.?\s*)?\<close>\<close>
  "qPrefix = Opt (seqs [Lit (asc ''Q''), Rep [Ch (cu CHR ''.'')] 0 (Some 1) True, wsStar])"

definition dotOrParen :: re where
  \<comment> \<open>\<open>[.\)]\<close>\<close>
  "dotOrParen = Atom [Ch (cu CHR ''.''), Ch (cu CHR '')'')]"

definition lazyText :: re where
  \<comment> \<open>\<open>.+?\<close>\<close>
  "lazyText = Rep [Dot] 1 None False"

definition answerWord :: re where
  \<comment> \<open>\<open>(?:Answer|Ans|ANS|Correct)\<close>\<close>
  "answerWord = alts [Lit (asc ''Answer''), Lit (asc ''Ans''), Lit (asc ''ANS''), Lit (asc ''Correct'')]"

definition colonsSpaces :: re where
  \<comment> \<open>\<open>[:\s]*\<close>\<close>
  "colonsSpaces = Rep [Ch (cu CHR '':''), WS] 0 None True"

definition answerLetter :: re where
  \<comment> \<open>\<open>[A-Da-d]\<close>\<close>
  "answerLetter = Atom [Rng (cu CHR ''A'') (cu CHR ''D''), Rng (cu CHR ''a'') (cu CHR ''d'')]"

text \<open>
  The two patterns of \<open>parseQuestions\<close>, both \<open>/gi\<close>: options marked \<open>A)\<close> or
  \<open>A.\<close>, and options marked \<open>(A)\<close>.
\<close>

definition patternLettered :: re where
  "patternLettered =
     seqs [qPrefix, Group 1 digits1, dotOrParen, wsStar,
           Group 2 lazyText, wsPlus, Lit (asc ''A''), dotOrParen, wsStar,
           Group 3 lazyText, wsPlus, Lit (asc ''B''), dotOrParen, wsStar,
           Group 4 lazyText, wsPlus, Lit (asc ''C''), dotOrParen, wsStar,
           Group 5 lazyText, wsPlus, Lit (asc ''D''), dotOrParen, wsStar,
           Group 6 lazyText, wsStar, answerWord, colonsSpaces, Group 7 answerLetter]"

definition patternParen :: re where
  "patternParen =
     seqs [Group 1 digits1, dotOrParen, wsStar,
           Group 2 lazyText, wsPlus, Lit (asc ''(A)''), wsStar,
           Group 3 lazyText, wsPlus, Lit (asc ''(B)''), wsStar,
           Group 4 lazyText, wsPlus, Lit (asc ''(C)''), wsStar,
           Group 5 lazyText, wsPlus, Lit (asc ''(D)''), wsStar,
           Group 6 lazyText, wsStar, answerWord, colonsSpaces, Group 7 answerLetter]"

text \<open>
  The body of the \<open>while\<close> loop: the record pushed for one match array
  \<open>[_, num, questionText, optA, optB, optC, optD, answer]\<close>, if the six tested
  captures are truthy (defined and not empty). Group 1 takes part in every match, so
  \<open>num\<close> is always defined.
\<close>

definition truthy :: "jsstring option \<Rightarrow> bool" where
  "truthy v = (case v of None \<Rightarrow> False | Some s \<Rightarrow> s \<noteq> [])"

definition str :: "jsstring option \<Rightarrow> jsstring" where
  "str v = (case v of None \<Rightarrow> [] | Some s \<Rightarrow> s)"

definition structuredRecord :: "jsstring \<Rightarrow> matchArray \<Rightarrow> question list" where
  "structuredRecord sourcePdf m =
     (if truthy (grp m 2) \<and> truthy (grp m 3) \<and> truthy (grp m 4) \<and> truthy (grp m 5)
         \<and> truthy (grp m 6) \<and> truthy (grp m 7)
      then [\<lparr>qid = sourcePdf @ asc ''-'' @ str (grp m 1),
             number = parseInt (str (grp m 1)),
             questionText = cleanText (str (grp m 2)),
             optA = cleanText (str (grp m 3)),
             optB = cleanText (str (grp m 4)),
             optC = cleanText (str (grp m 5)),
             optD = cleanText (str (grp m 6)),
             answer = toUpperCase (str (grp m 7)),
             source = sourcePdf\<rparr>]
      else [])"

text \<open>The \<open>for\<close> loop over the two patterns, each scanned over the whole text.\<close>

definition structuredQuestions :: "jsstring \<Rightarrow> jsstring \<Rightarrow> question list" where
  "structuredQuestions cleanTxt sourcePdf =
     concat (map (\<lambda>p. concat (map (structuredRecord sourcePdf) (execAll True p (startState cleanTxt))))
                 [patternLettered, patternParen])"

section \<open>PDFParser.parseQuestionsFlexible\<close>

definition digits13 :: re where
  \<comment> \<open>\<open>\d{1,3}\<close>\<close>
  "digits13 = Rep [Dig] 1 (Some 3) True"

definition blockBoundary :: re where
  \<comment> \<open>\<open>/(?=(?:Q\.?\s*)?\d{1,3}[.\)])/\<close>\<close>
  "blockBoundary = Look (seqs [qPrefix, digits13, dotOrParen])"

definition numberPrefix :: re where
  \<comment> \<open>\<open>/^(?:Q\.?\s*)?(\d{1,3})[.\)]/\<close>\<close>
  "numberPrefix = seqs [Bol, qPrefix, Group 1 digits13, dotOrParen]"

definition answerPart :: re where
  \<comment> \<open>\<open>(?:\s*(?:Answer|Ans|ANS|Correct)[:\s]*([A-Da-d]))?\<close>\<close>
  "answerPart = Opt (seqs [wsStar, answerWord, colonsSpaces, Group 6 answerLetter])"

text \<open>The two option patterns, both \<open>/i\<close>.\<close>

definition optionLettered :: re where
  "optionLettered =
     seqs [Bol, Group 1 lazyText, wsPlus, Lit (asc ''A''), dotOrParen, wsStar,
           Group 2 lazyText, wsPlus, Lit (asc ''B''), dotOrParen, wsStar,
           Group 3 lazyText, wsPlus, Lit (asc ''C''), dotOrParen, wsStar,
           Group 4 lazyText, wsPlus, Lit (asc ''D''), dotOrParen, wsStar,
           Group 5 lazyText, answerPart]"

definition optionParen :: re where
  "optionParen =
     seqs [Bol, Group 1 lazyText, wsPlus, Lit (asc ''(A)''), wsStar,
           Group 2 lazyText, wsPlus, Lit (asc ''(B)''), wsStar,
           Group 3 lazyText, wsPlus, Lit (asc ''(C)''), wsStar,
           Group 4 lazyText, wsPlus, Lit (asc ''(D)''), wsStar,
           Group 5 lazyText, answerPart]"

text \<open>
  The loop over the option patterns: the first pattern that matches decides, and the
  record is pushed only if the trimmed question capture is longer than 10.
\<close>

definition flexibleRecord :: "jsstring \<Rightarrow> nat \<Rightarrow> matchArray \<Rightarrow> question list" where
  "flexibleRecord sourcePdf num m =
     (let qText = (if truthy (grp m 1) then trim (str (grp m 1)) else [])
      in if length qText > 10
         then [\<lparr>qid = sourcePdf @ asc ''-'' @ numberToString num,
                number = num,
                questionText = cleanText qText,
                optA = cleanText (str (grp m 2)),
                optB = cleanText (str (grp m 3)),
                optC = cleanText (str (grp m 4)),
                optD = cleanText (str (grp m 5)),
                answer = (if truthy (grp m 6) then toUpperCase (str (grp m 6)) else asc ''A''),
                source = sourcePdf\<rparr>]
         else [])"

fun tryOptionPatterns :: "jsstring \<Rightarrow> nat \<Rightarrow> jsstring \<Rightarrow> re list \<Rightarrow> question list" where
  "tryOptionPatterns sourcePdf num rest [] = []"
| "tryOptionPatterns sourcePdf num rest (p # ps) =
     (case matchFirst True p rest of
        None \<Rightarrow> tryOptionPatterns sourcePdf num rest ps
      | Some m \<Rightarrow> flexibleRecord sourcePdf num m)"

text \<open>The body of the loop over the blocks.\<close>

definition blockQuestions :: "jsstring \<Rightarrow> jsstring \<Rightarrow> question list" where
  "blockQuestions sourcePdf block =
     (if length (trim block) < 20 then []
      else case matchFirst False numberPrefix block of
             None \<Rightarrow> []
           | Some numMatch \<Rightarrow>
               tryOptionPatterns sourcePdf (parseInt (str (grp numMatch 1)))
                 (trim (drop (length (str (grp numMatch 0))) block))
                 [optionLettered, optionParen])"

definition parseQuestionsFlexible :: "jsstring \<Rightarrow> jsstring \<Rightarrow> question list" where
  "parseQuestionsFlexible text sourcePdf =
     concat (map (blockQuestions sourcePdf) (split False blockBoundary text))"

definition parseQuestions :: "jsstring \<Rightarrow> jsstring \<Rightarrow> question list" where
  "parseQuestions text sourcePdf =
     (let cleanTxt = normalize text;
          questions = structuredQuestions cleanTxt sourcePdf
      in if length questions < 5 then parseQuestionsFlexible cleanTxt sourcePdf else questions)"

section \<open>PDFParser.loadPDFs\<close>

text \<open>
  A file is its name and the outcome of \<open>extractTextFromPDF\<close> on it, which belongs to
  the PDF library: the text of the pages, or the error thrown. \<open>loadPDFs\<close> returns the
  pool; the model also returns what \<open>console.error\<close> has logged.
\<close>

datatype error = ExtractionError jsstring

record pdfFile =
  name :: jsstring
  extractTextFromPDF :: "error + jsstring"

definition extractQuestionsFromPDF :: "pdfFile \<Rightarrow> error + question list" where
  "extractQuestionsFromPDF file =
     (case extractTextFromPDF file of
        Inl e \<Rightarrow> Inl e
      | Inr text \<Rightarrow> Inr (parseQuestions text (name file)))"

type_synonym logEntry = "jsstring \<times> error"

fun loadLoop :: "pdfFile list \<Rightarrow> question list \<times> logEntry list \<Rightarrow> question list \<times> logEntry list" where
  "loadLoop [] st = st"
| "loadLoop (file # files) (questions, logged) =
     (case extractQuestionsFromPDF file of
        Inr qs \<Rightarrow> loadLoop files (questions @ qs, logged)
      | Inl e \<Rightarrow> loadLoop files (questions, logged @ [(name file, e)]))"

definition loadPDFs :: "pdfFile list \<Rightarrow> question list \<times> logEntry list" where
  "loadPDFs pdfFiles = loadLoop pdfFiles ([], [])"

section \<open>PDFParser.getRandomQuestions and shuffleArray\<close>

text \<open>
  \<open>Math.random\<close> is a sequence of numbers in \<open>[0, 1)\<close>: \<open>rnd k\<close> is the result of
  the \<open>k\<close>-th call. The loop of \<open>shuffleArray\<close> runs \<open>i\<close> from \<open>length - 1\<close>
  down to \<open>1\<close> and swaps the elements at \<open>i\<close> and \<open>j = floor(random() * (i + 1))\<close>.
\<close>

definition swap :: "nat \<Rightarrow> nat \<Rightarrow> 'a list \<Rightarrow> 'a list" where
  "swap i j xs = (xs[i := xs ! j])[j := xs ! i]"

fun shuffleLoop :: "(nat \<Rightarrow> real) \<Rightarrow> nat \<Rightarrow> nat \<Rightarrow> 'a list \<Rightarrow> 'a list" where
  "shuffleLoop rnd k 0 array = array"
| "shuffleLoop rnd k (Suc i) array =
     (let j = nat \<lfloor>rnd k * real (Suc i + 1)\<rfloor>
      in shuffleLoop rnd (Suc k) i (swap (Suc i) j array))"

definition shuffleArray :: "(nat \<Rightarrow> real) \<Rightarrow> 'a list \<Rightarrow> 'a list" where
  "shuffleArray rnd array = shuffleLoop rnd 0 (length array - 1) array"

definition getRandomQuestions ::
  "(nat \<Rightarrow> real) \<Rightarrow> question list \<Rightarrow> nat \<Rightarrow> jsstring list \<Rightarrow> question list" where
  "getRandomQuestions rnd questions cnt excludeIds =
     (let available = filter (\<lambda>q. qid q \<notin> set excludeIds) questions;
          shuffled = shuffleArray rnd available
      in take cnt shuffled)"

section \<open>What a pattern can match\<close>

text \<open>
  A declarative reading of the patterns, used to reason about every match at once:
  \<open>reach ic r x y\<close> holds when \<open>r\<close> can lead from state \<open>x\<close> to state \<open>y\<close>,
  whatever the order in which the matcher tries the alternatives. \<open>required r\<close> lists
  literal runs that every match of \<open>r\<close> contains, and \<open>occursIn\<close> looks for such a
  run in a text; a text without one of them cannot match.
\<close>


fun steps :: "(cu \<Rightarrow> bool) \<Rightarrow> nat \<Rightarrow> mstate \<Rightarrow> mstate option" where
  "steps P 0 x = Some x"
| "steps P (Suc k) x = (case step P x of None \<Rightarrow> None | Some y \<Rightarrow> steps P k y)"

definition repOk :: "nat \<Rightarrow> nat option \<Rightarrow> nat \<Rightarrow> bool" where
  "repOk mn mx k = (case mx of None \<Rightarrow> mn \<le> k | Some m \<Rightarrow> k \<le> m \<and> (mn \<le> k \<or> k = m))"

fun reach :: "bool \<Rightarrow> re \<Rightarrow> mstate \<Rightarrow> mstate \<Rightarrow> bool" where
  "reach ic (Lit ps) x y = (lit ic ps x = Some y)"
| "reach ic (Atom cs) x y = (step (inClass ic cs) x = Some y)"
| "reach ic (Rep cs mn mx g) x y = (\<exists>k. repOk mn mx k \<and> steps (inClass ic cs) k x = Some y)"
| "reach ic (Seq r1 r2) x y = (\<exists>m. reach ic r1 x m \<and> reach ic r2 m y)"
| "reach ic (Alt r1 r2) x y = (reach ic r1 x y \<or> reach ic r2 x y)"
| "reach ic (Opt r) x y = (reach ic r x y \<or> y = x)"
| "reach ic (Group n r) x y =
     (\<exists>m. reach ic r x m
          \<and> y = setCaptures ((captures m)(n := Some (take (endIndex m - endIndex x) (remaining x)))) m)"
| "reach ic (Look r) x y = (\<exists>m. reach ic r x m \<and> y = setCaptures (captures m) x)"
| "reach ic Bol x y = (endIndex x = 0 \<and> y = x)"
| "reach ic Eol x y = (remaining x = [] \<and> y = x)"
| "reach ic WordB x y = (atWordBoundary x \<and> y = x)"

fun required :: "re \<Rightarrow> jsstring list" where
  "required (Lit ps) = [ps]"
| "required (Seq r1 r2) = required r1 @ required r2"
| "required (Group n r) = required r"
| "required _ = []"

fun hasPrefix :: "bool \<Rightarrow> jsstring \<Rightarrow> jsstring \<Rightarrow> bool" where
  "hasPrefix ic [] s = True"
| "hasPrefix ic (p # ps) [] = False"
| "hasPrefix ic (p # ps) (c # cs) = (if inCset ic (Ch p) c then hasPrefix ic ps cs else False)"

fun occursIn :: "bool \<Rightarrow> jsstring \<Rightarrow> jsstring \<Rightarrow> bool" where
  "occursIn ic l [] = hasPrefix ic l []"
| "occursIn ic l (c # cs) = (if hasPrefix ic l (c # cs) then True else occursIn ic l cs)"

fun anyMissing :: "bool \<Rightarrow> jsstring list \<Rightarrow> jsstring \<Rightarrow> bool" where
  "anyMissing ic [] s = False"
| "anyMissing ic (l # ls) s = (if occursIn ic l s then anyMissing ic ls s else True)"

definition cannotMatch :: "bool \<Rightarrow> re \<Rightarrow> jsstring \<Rightarrow> bool" where
  "cannotMatch ic r s = anyMissing ic (required r) s"

fun inSomeChunk :: "jsstring \<Rightarrow> jsstring list \<Rightarrow> bool" where
  "inSomeChunk t [] = False"
| "inSomeChunk t (l # ls) = (if occursIn True t l then True else inSomeChunk t ls)"

fun needsTrigger :: "jsstring list \<Rightarrow> rule \<Rightarrow> bool" where
  "needsTrigger [] rl = False"
| "needsTrigger (t # ts) (Rule ic r tp) = (if inSomeChunk t (required r) then True else needsTrigger ts (Rule ic r tp))"

definition triggers :: "jsstring list" where
  "triggers =
     [asc ''ti'', asc ''tt'', asc ''ft'', asc ''fi'', asc ''fl'', asc ''hard'', asc ''uniqu'', asc ''que'',
      asc ''ingredi'',
      [0x0398], [0x03B8], [0x019F], [0x0275], [0x03A3], [0x03C3], [0x03C2], [0x00D5], [0x00F5],
      [0x0192], [0x00B5], [0xFB01], [0xFB02], [0xFB03], [0xFB04], [0xFB05], [0xFB06],
      [0x2018], [0x2019], [0x201C], [0x201D], [0x2013], [0x2014], [0x2026],
      [0x00A0], [0x2003], [0x2002], [0x2009], [0x200B], [0x00AD], [0xFEFF]]"

fun noneOccurs :: "jsstring list \<Rightarrow> jsstring \<Rightarrow> bool" where
  "noneOccurs [] s = True"
| "noneOccurs (t # ts) s = (if occursIn True t s then False else noneOccurs ts s)"

definition untriggered :: "jsstring \<Rightarrow> bool" where
  "untriggered s = noneOccurs triggers s"


section \<open>Auxiliary definitions for the properties\<close>

text \<open>
  The source name enters a record only through its \<open>id\<close> and \<open>source\<close> fields:
  \<open>withSource src\<close> turns the record parsed under the empty source name into the one
  parsed under \<open>src\<close>.
\<close>

definition withSource :: "jsstring \<Rightarrow> question \<Rightarrow> question" where
  "withSource src q = q\<lparr>qid := src @ qid q, source := src\<rparr>"

text \<open>What one file contributes to the pool and to the log of \<open>loadPDFs\<close>.\<close>

definition producedBy :: "pdfFile \<Rightarrow> question list" where
  "producedBy file = (case extractQuestionsFromPDF file of Inr qs \<Rightarrow> qs | Inl e \<Rightarrow> [])"

definition loggedBy :: "pdfFile \<Rightarrow> logEntry list" where
  "loggedBy file = (case extractQuestionsFromPDF file of Inr qs \<Rightarrow> [] | Inl e \<Rightarrow> [(name file, e)])"

text \<open>Concrete inputs.\<close>

definition knownText :: jsstring where
  "knownText = asc ''1) What is 2+2? A) 3 B) 4 C) 5 D) 6 Answer: B''"

definition markedText :: jsstring where
  "markedText = asc ''1) What is 1+1? A) 1 B) 3 C) 4 D) 20 Answer: D''"

definition repeatedText :: jsstring where
  "repeatedText =
     asc ''1) What is 2+2? A) 3 B) 4 C) 5 D) 6 Answer: B 1) What is 3+3? A) 3 B) 4 C) 5 D) 6 Answer: D''"

definition watermarkedText :: jsstring where
  "watermarkedText = asc ''1) Page 1 of 2 ab A) www.a.in B) 2 C) 3 D) 4''"

definition brokenText :: jsstring where
  "brokenText = asc ''xx ti xx ti xx''"

definition goodFile :: pdfFile where
  "goodFile = \<lparr>name = asc ''a.pdf'', extractTextFromPDF = Inr knownText\<rparr>"

definition badFile :: pdfFile where
  "badFile = \<lparr>name = asc ''b.pdf'', extractTextFromPDF = Inl (ExtractionError (asc ''Invalid PDF''))\<rparr>"

definition repeatedFile :: pdfFile where
  "repeatedFile = \<lparr>name = asc ''a.pdf'', extractTextFromPDF = Inr repeatedText\<rparr>"

definition exampleQuestion :: "nat \<Rightarrow> question" where
  "exampleQuestion n =
     \<lparr>qid = asc ''a.pdf-'' @ numberToString n, number = n, questionText = asc ''What is 2+2?'',
      optA = asc ''3'', optB = asc ''4'', optC = asc ''5'', optD = asc ''6'',
      answer = asc ''B'', source = asc ''a.pdf''\<rparr>"

definition examplePool :: "question list" where
  "examplePool = [exampleQuestion 1, exampleQuestion 2, exampleQuestion 3]"

section \<open>Soundness of the matcher\<close>


lemma step_SomeD:
  "step P x = Some y \<Longrightarrow>
     \<exists>c. remaining x = c # remaining y \<and> P c \<and> endIndex y = Suc (endIndex x)
         \<and> captures y = captures x \<and> lastCu y = Some c"
  by (auto simp: step_def split: list.splits if_splits)

lemma lit_SomeD:
  "lit ic ps x = Some y \<Longrightarrow>
     \<exists>w. remaining x = w @ remaining y \<and> length w = length ps
         \<and> endIndex y = endIndex x + length ps \<and> captures y = captures x"
proof (induction ps arbitrary: x)
  case Nil
  then show ?case by simp
next
  case (Cons p ps)
  from Cons.prems obtain m where m: "step (inCset ic (Ch p)) x = Some m" and r: "lit ic ps m = Some y"
    by (auto split: option.splits)
  from step_SomeD[OF m] obtain c where c: "remaining x = c # remaining m" "endIndex m = Suc (endIndex x)"
    "captures m = captures x" by blast
  from Cons.IH[OF r] obtain w where w: "remaining m = w @ remaining y" "length w = length ps"
    "endIndex y = endIndex m + length ps" "captures y = captures m" by blast
  show ?case using c w by (intro exI[of _ "c # w"]) simp
qed

lemma steps_SomeD:
  "steps P k x = Some y \<Longrightarrow>
     \<exists>w. remaining x = w @ remaining y \<and> length w = k \<and> list_all P w
         \<and> endIndex y = endIndex x + k \<and> captures y = captures x"
proof (induction k arbitrary: x)
  case 0
  then show ?case by simp
next
  case (Suc k)
  from Suc.prems obtain m where m: "step P x = Some m" and r: "steps P k m = Some y"
    by (auto split: option.splits)
  from step_SomeD[OF m] obtain c where c: "remaining x = c # remaining m" "P c" "endIndex m = Suc (endIndex x)"
    "captures m = captures x" by blast
  from Suc.IH[OF r] obtain w where w: "remaining m = w @ remaining y" "length w = k" "list_all P w"
    "endIndex y = endIndex m + k" "captures y = captures m" by blast
  show ?case using c w by (intro exI[of _ "c # w"]) simp
qed


lemma repOk_0: "mx = Some 0 \<or> mn = 0 \<Longrightarrow> repOk mn mx 0"
  by (auto simp: repOk_def split: option.splits)

lemma repOk_Suc: "mx \<noteq> Some 0 \<Longrightarrow> repOk (mn - 1) (decr mx) k \<Longrightarrow> repOk mn mx (Suc k)"
  by (auto simp: repOk_def decr_def split: option.splits)

lemma greedy_sound:
  "greedy P mn mx x c = Some z \<Longrightarrow> \<exists>k y. repOk mn mx k \<and> steps P k x = Some y \<and> c y = Some z"
proof (induction P mn mx x c rule: greedy.induct)
  case (1 P mn mx x c)
  show ?case
  proof (cases "mx = Some 0")
    case True
    with "1.prems" have "c x = Some z" by (simp add: greedy.simps)
    then show ?thesis using True repOk_0[of mx mn] by (intro exI[of _ 0] exI[of _ x]) simp
  next
    case False
    show ?thesis
    proof (cases "step P x")
      case None
      with False "1.prems" have "mn = 0" "c x = Some z"
        by (auto simp: greedy.simps[of P mn mx x c] split: if_splits)
      then show ?thesis using repOk_0[of mx mn] by (intro exI[of _ 0] exI[of _ x]) simp
    next
      case (Some y)
      show ?thesis
      proof (cases "greedy P (mn - 1) (decr mx) y c")
        case None
        with False Some "1.prems" have "mn = 0" "c x = Some z"
          by (auto simp: greedy.simps[of P mn mx x c] split: if_splits)
        then show ?thesis using repOk_0[of mx mn] by (intro exI[of _ 0] exI[of _ x]) simp
      next
        case (Some z')
        with False \<open>step P x = Some y\<close> "1.prems" have "z' = z"
          by (auto simp: greedy.simps[of P mn mx x c])
        with Some "1.IH"[OF False \<open>step P x = Some y\<close>]
        obtain k y' where k: "repOk (mn - 1) (decr mx) k" "steps P k y = Some y'" "c y' = Some z"
          by blast
        show ?thesis using k False \<open>step P x = Some y\<close> repOk_Suc[of mx mn k]
          by (intro exI[of _ "Suc k"] exI[of _ y']) simp
      qed
    qed
  qed
qed

lemma lazy_sound:
  "lazy P mn mx x c = Some z \<Longrightarrow> \<exists>k y. repOk mn mx k \<and> steps P k x = Some y \<and> c y = Some z"
proof (induction P mn mx x c rule: lazy.induct)
  case (1 P mn mx x c)
  note unf = "1.prems"[unfolded lazy.simps[of P mn mx x c]]
  show ?case
  proof (cases "mx = Some 0")
    case True
    with unf have "c x = Some z" by simp
    then show ?thesis using True repOk_0[of mx mn] by (intro exI[of _ 0] exI[of _ x]) simp
  next
    case False
    show ?thesis
    proof (cases "mn = 0")
      case mn: False
      with False unf obtain y where y: "step P x = Some y" "lazy P (mn - 1) (decr mx) y c = Some z"
        by (auto split: option.splits)
      from "1.IH"(1)[OF False mn y(1) y(2)]
      obtain k y' where k: "repOk (mn - 1) (decr mx) k" "steps P k y = Some y'" "c y' = Some z"
        by blast
      show ?thesis using k False y repOk_Suc[of mx mn k]
        by (intro exI[of _ "Suc k"] exI[of _ y']) simp
    next
      case mn: True
      show ?thesis
      proof (cases "c x")
        case (Some z')
        with False mn unf have "z' = z" by simp
        with Some show ?thesis using mn repOk_0[of mx mn] by (intro exI[of _ 0] exI[of _ x]) simp
      next
        case None
        with False mn unf obtain y where y: "step P x = Some y" "lazy P 0 (decr mx) y c = Some z"
          by (auto split: option.splits)
        have nn: "\<not> mn \<noteq> 0" using mn by simp
        from "1.IH"(2)[OF False nn None y(1) y(2)]
        obtain k y' where k: "repOk 0 (decr mx) k" "steps P k y = Some y'" "c y' = Some z"
          by blast
        have "repOk mn mx (Suc k)" using repOk_Suc[of mx mn k] k(1) False mn by simp
        then show ?thesis using k y
          by (intro exI[of _ "Suc k"] exI[of _ y']) simp
      qed
    qed
  qed
qed

lemma matcher_sound:
  "matcher ic r x c = Some z \<Longrightarrow> \<exists>y. reach ic r x y \<and> c y = Some z"
proof (induction r arbitrary: x c z)
  case (Lit ps)
  then show ?case by (auto split: option.splits)
next
  case (Atom cs)
  then show ?case by (auto split: option.splits)
next
  case (Rep cs mn mx g)
  show ?case
  proof (cases g)
    case True
    with Rep have "greedy (inClass ic cs) mn mx x c = Some z" by simp
    from greedy_sound[OF this] show ?thesis by auto
  next
    case False
    with Rep have "lazy (inClass ic cs) mn mx x c = Some z" by simp
    from lazy_sound[OF this] show ?thesis by auto
  qed
next
  case (Seq r1 r2)
  from Seq.prems have "matcher ic r1 x (\<lambda>y. matcher ic r2 y c) = Some z" by simp
  from Seq.IH(1)[OF this] obtain m where m: "reach ic r1 x m" "matcher ic r2 m c = Some z" by blast
  from Seq.IH(2)[OF m(2)] obtain y where "reach ic r2 m y" "c y = Some z" by blast
  with m show ?case by auto
next
  case (Alt r1 r2)
  show ?case
  proof (cases "matcher ic r1 x c")
    case None
    with Alt.prems have "matcher ic r2 x c = Some z" by simp
    from Alt.IH(2)[OF this] show ?thesis by auto
  next
    case (Some z')
    with Alt.prems have "matcher ic r1 x c = Some z" by simp
    from Alt.IH(1)[OF this] show ?thesis by auto
  qed
next
  case (Opt r)
  show ?case
  proof (cases "matcher ic r x (\<lambda>y. if endIndex y = endIndex x then None else c y)")
    case None
    with Opt.prems have "c x = Some z" by simp
    then show ?thesis by auto
  next
    case (Some z')
    with Opt.prems have "z' = z" by simp
    with Opt.IH[OF Some] obtain y where "reach ic r x y"
      "(if endIndex y = endIndex x then None else c y) = Some z" by blast
    then show ?thesis by (cases "endIndex y = endIndex x") auto
  qed
next
  case (Group n r)
  from Group.prems have "matcher ic r x
       (\<lambda>y. c (setCaptures ((captures y)(n := Some (take (endIndex y - endIndex x) (remaining x)))) y)) = Some z"
    by simp
  from Group.IH[OF this] obtain m where "reach ic r x m"
    "c (setCaptures ((captures m)(n := Some (take (endIndex m - endIndex x) (remaining x)))) m) = Some z"
    by blast
  then show ?case by auto
next
  case (Look r)
  from Look.prems obtain m where m: "matcher ic r x Some = Some m" "c (setCaptures (captures m) x) = Some z"
    by (auto split: option.splits)
  from Look.IH[OF m(1)] have "reach ic r x m" by simp
  with m show ?case by auto
next
  case Bol
  then show ?case by (auto split: if_splits)
next
  case Eol
  then show ?case by (auto split: if_splits)
next
  case WordB
  then show ?case by (auto split: if_splits)
qed

lemma matchAt_sound:
  "matchAt ic r x = Some y \<Longrightarrow> reach ic r (setCaptures (\<lambda>_. None) x) y"
  unfolding matchAt_def by (drule matcher_sound) simp


lemma setCaptures_sel [simp]:
  "endIndex (setCaptures k x) = endIndex x" "lastCu (setCaptures k x) = lastCu x"
  "remaining (setCaptures k x) = remaining x" "captures (setCaptures k x) = k"
  by (simp_all add: setCaptures_def)

lemma reach_consumes:
  "reach ic r x y \<Longrightarrow> \<exists>w. remaining x = w @ remaining y \<and> endIndex y = endIndex x + length w"
proof (induction r arbitrary: x y)
  case (Lit ps)
  then show ?case using lit_SomeD[of ic ps x y] by auto
next
  case (Atom cs)
  then show ?case using step_SomeD[of "inClass ic cs" x y] by (auto intro: exI[of _ "[c]" for c])
next
  case (Rep cs mn mx g)
  then show ?case using steps_SomeD by fastforce
next
  case (Seq r1 r2)
  from Seq.prems obtain m where m: "reach ic r1 x m" "reach ic r2 m y" by auto
  from Seq.IH(1)[OF m(1)] obtain w1 where w1: "remaining x = w1 @ remaining m" "endIndex m = endIndex x + length w1"
    by blast
  from Seq.IH(2)[OF m(2)] obtain w2 where w2: "remaining m = w2 @ remaining y" "endIndex y = endIndex m + length w2"
    by blast
  show ?case using w1 w2 by (intro exI[of _ "w1 @ w2"]) simp
next
  case (Alt r1 r2)
  then show ?case by auto
next
  case (Opt r)
  then show ?case by auto
next
  case (Group n r)
  then show ?case by fastforce
next
  case (Look r)
  then show ?case by auto
qed auto

lemma hasPrefix_append: "hasPrefix ic l s \<Longrightarrow> hasPrefix ic l (s @ t)"
  by (induction ic l s rule: hasPrefix.induct) (auto split: if_splits)

lemma lit_hasPrefix: "lit ic ps x = Some y \<Longrightarrow> hasPrefix ic ps (remaining x)"
proof (induction ps arbitrary: x)
  case Nil
  then show ?case by simp
next
  case (Cons p ps)
  from Cons.prems obtain m where m: "step (inCset ic (Ch p)) x = Some m" and r: "lit ic ps m = Some y"
    by (auto split: option.splits)
  from step_SomeD[OF m] obtain c where c: "remaining x = c # remaining m" "inCset ic (Ch p) c" by blast
  with Cons.IH[OF r] show ?case by simp
qed

lemma occursIn_prefix: "hasPrefix ic l s \<Longrightarrow> occursIn ic l s"
  by (cases s) auto

lemma occursIn_append_left: "occursIn ic l s \<Longrightarrow> occursIn ic l (u @ s)"
  by (induction u) auto

lemma occursIn_Nil: "occursIn ic [] s"
  by (cases s) auto

lemma occursIn_append_right: "occursIn ic l s \<Longrightarrow> occursIn ic l (s @ t)"
proof (induction s)
  case Nil
  then have "l = []" by (cases l) auto
  then show ?case by (simp add: occursIn_Nil)
next
  case (Cons c s)
  then show ?case using hasPrefix_append[of ic l "c # s" t] by (auto split: if_splits)
qed

lemma required_occurs:
  "reach ic r x y \<Longrightarrow> l \<in> set (required r) \<Longrightarrow> occursIn ic l (remaining x)"
proof (induction r arbitrary: x y)
  case (Lit ps)
  then show ?case using lit_hasPrefix occursIn_prefix by auto
next
  case (Seq r1 r2)
  from Seq.prems obtain m where m: "reach ic r1 x m" "reach ic r2 m y" by auto
  show ?case
  proof (cases "l \<in> set (required r1)")
    case True
    with Seq.IH(1)[OF m(1)] show ?thesis by simp
  next
    case False
    with Seq.prems have "l \<in> set (required r2)" by simp
    with Seq.IH(2)[OF m(2)] have "occursIn ic l (remaining m)" by simp
    moreover from reach_consumes[OF m(1)] obtain w where "remaining x = w @ remaining m" by blast
    ultimately show ?thesis by (simp add: occursIn_append_left)
  qed
next
  case (Group n r)
  then show ?case by auto
qed auto

lemma anyMissing_iff: "anyMissing ic ls s \<longleftrightarrow> (\<exists>l \<in> set ls. \<not> occursIn ic l s)"
  by (induction ls) auto

lemma matchAt_needs:
  assumes "l \<in> set (required r)" "\<not> occursIn ic l (remaining x)"
  shows "matchAt ic r x = None"
proof (cases "matchAt ic r x")
  case (Some y)
  from required_occurs[OF matchAt_sound[OF Some] assms(1)] assms(2) show ?thesis by simp
qed simp

lemma replaceFrom_skip:
  assumes "l \<in> set (required r)"
  shows "\<not> occursIn ic l (remaining x) \<Longrightarrow> replaceFrom ic r t x = remaining x"
proof (induction "remaining x" arbitrary: x)
  case Nil
  then show ?case using matchAt_needs[OF assms, of ic x] by (simp add: replaceFrom.simps[of ic r t x])
next
  case (Cons c cs)
  have n: "matchAt ic r x = None" using matchAt_needs[OF assms Cons.prems] .
  have r: "remaining (advance x) = cs" using Cons.hyps(2)[symmetric] by (simp add: advance_def)
  have "\<not> occursIn ic l cs" using Cons.prems Cons.hyps(2)[symmetric] by (auto split: if_splits)
  with Cons.hyps(1)[of "advance x"] r have "replaceFrom ic r t (advance x) = cs" by simp
  then show ?case using n Cons.hyps(2)[symmetric] by (simp add: replaceFrom.simps[of ic r t x])
qed

lemma replaceAll_skip: "cannotMatch ic r s \<Longrightarrow> replaceAll ic r t s = s"
  unfolding cannotMatch_def anyMissing_iff replaceAll_def
  using replaceFrom_skip[of _ r ic "startState s" t] by (auto simp: startState_def)

lemma replaceAll_code [code]:
  "replaceAll ic r t s = (if cannotMatch ic r s then s else replaceFrom ic r t (startState s))"
  using replaceAll_skip by (auto simp: replaceAll_def)

lemma hasPrefix_trans: "hasPrefix True t l \<Longrightarrow> hasPrefix ic l s \<Longrightarrow> hasPrefix True t s"
proof (induction t arbitrary: l s)
  case Nil
  then show ?case by simp
next
  case (Cons a t)
  then obtain p l' where l: "l = p # l'" by (cases l) auto
  with Cons.prems obtain c s' where s: "s = c # s'" by (cases s) auto
  from Cons.prems l s have "canonicalize a = canonicalize p" "hasPrefix True t l'"
    "inCset ic (Ch p) c" "hasPrefix ic l' s'" by (auto split: if_splits)
  with Cons.IH[of l' s'] show ?case using s by (cases ic) auto
qed

lemma occursIn_trans_prefix: "occursIn True t l \<Longrightarrow> hasPrefix ic l s \<Longrightarrow> occursIn True t s"
proof (induction l arbitrary: s)
  case Nil
  then have "t = []" by (cases t) auto
  then show ?case by (simp add: occursIn_Nil)
next
  case (Cons p l)
  from Cons.prems obtain c s' where s: "s = c # s'" "hasPrefix ic l s'" by (cases s) (auto split: if_splits)
  show ?case
  proof (cases "hasPrefix True t (p # l)")
    case True
    from hasPrefix_trans[OF True Cons.prems(2)] show ?thesis by (rule occursIn_prefix)
  next
    case False
    with Cons.prems have "occursIn True t l" by simp
    from Cons.IH[OF this s(2)] show ?thesis using s by simp
  qed
qed

lemma occursIn_trans: "occursIn True t l \<Longrightarrow> occursIn ic l s \<Longrightarrow> occursIn True t s"
proof (induction s)
  case Nil
  then show ?case using occursIn_trans_prefix[of t l ic "[]"] by simp
next
  case (Cons c s)
  show ?case
  proof (cases "hasPrefix ic l (c # s)")
    case True
    with Cons.prems show ?thesis using occursIn_trans_prefix by blast
  next
    case False
    with Cons show ?thesis by simp
  qed
qed

lemma inSomeChunk_iff: "inSomeChunk t ls \<longleftrightarrow> (\<exists>l \<in> set ls. occursIn True t l)"
  by (induction ls) auto

lemma noneOccurs_iff: "noneOccurs ts s \<longleftrightarrow> (\<forall>t \<in> set ts. \<not> occursIn True t s)"
  by (induction ts) auto

lemma needsTrigger_skip:
  "needsTrigger ts rl \<Longrightarrow> noneOccurs ts s \<Longrightarrow> applyRule rl s = s"
proof (induction ts rl rule: needsTrigger.induct)
  case (1 rl)
  then show ?case by simp
next
  case (2 t ts ic r tp)
  show ?case
  proof (cases "inSomeChunk t (required r)")
    case True
    then obtain l where l: "l \<in> set (required r)" "occursIn True t l" by (auto simp: inSomeChunk_iff)
    from "2.prems"(2) have "\<not> occursIn True t s" by (simp split: if_splits)
    with occursIn_trans[OF l(2), of ic s] have "\<not> occursIn ic l s" by blast
    with l(1) have "cannotMatch ic r s" by (auto simp: cannotMatch_def anyMissing_iff)
    then show ?thesis by (simp add: replaceAll_skip)
  next
    case False
    with "2.prems" "2.IH" show ?thesis by (simp split: if_splits)
  qed
qed

lemma fold_skip:
  "list_all (needsTrigger ts) rls \<Longrightarrow> noneOccurs ts s \<Longrightarrow> fold applyRule rls s = s"
proof (induction rls)
  case Nil
  then show ?case by simp
next
  case (Cons rl rls)
  from Cons.prems have "needsTrigger ts rl" by simp
  from needsTrigger_skip[OF this Cons.prems(2)] have "applyRule rl s = s" .
  with Cons show ?case by simp
qed

lemma glyphRules_need_triggers: "list_all (needsTrigger triggers) glyphRules"
  by code_simp

lemma ftWordRules_need_triggers: "list_all (needsTrigger triggers) ftWordRules"
  by code_simp

lemma ligatureRules_need_triggers: "list_all (needsTrigger triggers) ligatureRules"
  by code_simp

lemma quoteRules_need_triggers: "list_all (needsTrigger triggers) quoteRules"
  by code_simp

lemma dashRules_need_triggers: "list_all (needsTrigger triggers) dashRules"
  by code_simp

lemma spaceRules_need_triggers: "list_all (needsTrigger triggers) spaceRules"
  by code_simp

lemma ttWordRules_need_triggers: "list_all (needsTrigger triggers) ttWordRules"
  by code_simp

lemma tiWordRules_need_triggers: "list_all (needsTrigger triggers) tiWordRules"
  by code_simp

lemma fiWordRules_need_triggers: "list_all (needsTrigger triggers) fiWordRules"
  by code_simp

lemma flWordRules_need_triggers: "list_all (needsTrigger triggers) flWordRules"
  by code_simp

lemma additionalWordRules_need_triggers: "list_all (needsTrigger triggers) additionalWordRules"
  by code_simp

lemma specificWordRules_need_triggers: "list_all (needsTrigger triggers) specificWordRules"
  by code_simp

lemma catchAllRules_need_triggers: "list_all (needsTrigger triggers) catchAllRules"
  by code_simp

lemma fixRules_need_triggers: "list_all (needsTrigger triggers) fixRules"
  unfolding fixRules_def list_all_append
  by (intro conjI glyphRules_need_triggers ftWordRules_need_triggers ligatureRules_need_triggers quoteRules_need_triggers dashRules_need_triggers spaceRules_need_triggers ttWordRules_need_triggers tiWordRules_need_triggers fiWordRules_need_triggers flWordRules_need_triggers additionalWordRules_need_triggers specificWordRules_need_triggers catchAllRules_need_triggers)

lemma fixLigatures_untriggered: "untriggered s \<Longrightarrow> fixLigatures s = s"
  unfolding untriggered_def fixLigatures_def using fold_skip[OF fixRules_need_triggers] by simp


subsection \<open>Equations for evaluation\<close>

lemma seqK_code [code]: "seqK ic r c y = matcher ic r y c"
  by (simp add: seqK_def)

lemma optK_code [code]: "optK x c y = (if endIndex y = endIndex x then None else c y)"
  by (simp add: optK_def)

lemma grpK_code [code]:
  "grpK n x c y = c (setCaptures ((captures y)(n := Some (take (endIndex y - endIndex x) (remaining x)))) y)"
  by (simp add: grpK_def)

lemma matcher_code [code]:
  "matcher ic (Lit ps) x c = (case lit ic ps x of None \<Rightarrow> None | Some y \<Rightarrow> c y)"
  "matcher ic (Atom cs) x c = (case step (inClass ic cs) x of None \<Rightarrow> None | Some y \<Rightarrow> c y)"
  "matcher ic (Rep cs mn mx g) x c =
     (if g then greedy (inClass ic cs) mn mx x c else lazy (inClass ic cs) mn mx x c)"
  "matcher ic (Seq r1 r2) x c = matcher ic r1 x (seqK ic r2 c)"
  "matcher ic (Alt r1 r2) x c =
     (case matcher ic r1 x c of Some z \<Rightarrow> Some z | None \<Rightarrow> matcher ic r2 x c)"
  "matcher ic (Opt r) x c =
     (case matcher ic r x (optK x c) of Some z \<Rightarrow> Some z | None \<Rightarrow> c x)"
  "matcher ic (Group n r) x c = matcher ic r x (grpK n x c)"
  "matcher ic (Look r) x c =
     (case matcher ic r x Some of None \<Rightarrow> None | Some y \<Rightarrow> c (setCaptures (captures y) x))"
  "matcher ic Bol x c = (if endIndex x = 0 then c x else None)"
  "matcher ic Eol x c = (if remaining x = [] then c x else None)"
  "matcher ic WordB x c = (if atWordBoundary x then c x else None)"
  by (simp_all add: seqK_def optK_def grpK_def)

lemma search_skip:
  assumes "l \<in> set (required r)"
  shows "\<not> occursIn ic l (remaining x) \<Longrightarrow> search ic r x = None"
proof (induction "remaining x" arbitrary: x)
  case Nil
  then show ?case using matchAt_needs[OF assms, of ic x] by (simp add: search.simps[of ic r x])
next
  case (Cons c cs)
  have n: "matchAt ic r x = None" using matchAt_needs[OF assms Cons.prems] .
  have r: "remaining (advance x) = cs" using Cons.hyps(2)[symmetric] by (simp add: advance_def)
  have "\<not> occursIn ic l cs" using Cons.prems Cons.hyps(2)[symmetric] by (auto split: if_splits)
  with Cons.hyps(1)[of "advance x"] r have "search ic r (advance x) = None" by simp
  then show ?case using n Cons.hyps(2)[symmetric] by (simp add: search.simps[of ic r x])
qed

lemma search_cannotMatch: "cannotMatch ic r (remaining x) \<Longrightarrow> search ic r x = None"
  unfolding cannotMatch_def anyMissing_iff using search_skip by blast

lemma execAll_code [code]:
  "execAll ic r x =
     (if cannotMatch ic r (remaining x) then []
      else case search ic r x of
             None \<Rightarrow> []
           | Some (s, y) \<Rightarrow>
               if length (remaining y) < length (remaining x) then matchArray r s y # execAll ic r y
               else [matchArray r s y])"
  using search_cannotMatch[of ic r x] by (simp add: execAll.simps[of ic r x])

lemma matchFirst_code [code]:
  "matchFirst ic r s =
     (if cannotMatch ic r s then None
      else case search ic r (startState s) of None \<Rightarrow> None | Some (x, y) \<Rightarrow> Some (matchArray r x y))"
  using search_cannotMatch[of ic r "startState s"] by (simp add: matchFirst_def startState_def)

lemma fixLigatures_code [code]:
  "fixLigatures text =
     (if text = [] then [] else if untriggered text then text else fold applyRule fixRules text)"
proof (cases "untriggered text")
  case True
  from fixLigatures_untriggered[OF True] show ?thesis using True by (simp add: fixLigatures_def)
next
  case False
  then show ?thesis by (simp add: fixLigatures_def)
qed


section \<open>The source name\<close>

lemma structuredRecord_source:
  "structuredRecord src m = map (withSource src) (structuredRecord [] m)"
  by (simp add: structuredRecord_def withSource_def)

lemma flexibleRecord_source:
  "flexibleRecord src n m = map (withSource src) (flexibleRecord [] n m)"
  by (simp add: flexibleRecord_def withSource_def Let_def)

lemma tryOptionPatterns_source:
  "tryOptionPatterns src n rest ps = map (withSource src) (tryOptionPatterns [] n rest ps)"
  by (induction ps) (auto simp: flexibleRecord_source[of src] split: option.splits)

lemma blockQuestions_source:
  "blockQuestions src block = map (withSource src) (blockQuestions [] block)"
proof -
  have "tryOptionPatterns src n rest ps = map (withSource src) (tryOptionPatterns [] n rest ps)"
    for n rest ps by (rule tryOptionPatterns_source)
  then show ?thesis unfolding blockQuestions_def by (simp split: option.splits del: tryOptionPatterns.simps)
qed

lemma concat_map_source:
  assumes "\<And>x. f x = map g (h x)"
  shows "concat (map f xs) = map g (concat (map h xs))"
  by (induction xs) (simp_all add: assms)

lemma parseQuestionsFlexible_source:
  "parseQuestionsFlexible text src = map (withSource src) (parseQuestionsFlexible text [])"
  unfolding parseQuestionsFlexible_def by (rule concat_map_source) (rule blockQuestions_source)

lemma structuredQuestions_source:
  "structuredQuestions text src = map (withSource src) (structuredQuestions text [])"
  unfolding structuredQuestions_def
  by (rule concat_map_source) (rule concat_map_source, rule structuredRecord_source)

lemma parseQuestions_source:
  "parseQuestions text src = map (withSource src) (parseQuestions text [])"
proof -
  have s: "structuredQuestions (normalize text) src = map (withSource src) (structuredQuestions (normalize text) [])"
    by (rule structuredQuestions_source)
  have f: "parseQuestionsFlexible (normalize text) src = map (withSource src) (parseQuestionsFlexible (normalize text) [])"
    by (rule parseQuestionsFlexible_source)
  show ?thesis unfolding parseQuestions_def Let_def s f by simp
qed

lemma known_normalize: "normalize knownText = knownText"
  by code_simp

lemma known_structured: "length (structuredQuestions knownText []) = 1"
  by code_simp

lemma known_flexible:
  "parseQuestionsFlexible knownText [] =
     [\<lparr>qid = asc ''-1'', number = 1, questionText = asc ''What is 2+2?'',
       optA = asc ''3'', optB = asc ''4'', optC = asc ''5'', optD = asc ''6'',
       answer = asc ''B'', source = []\<rparr>]"
  by code_simp

lemma known_parse:
  "parseQuestions knownText [] =
     [\<lparr>qid = asc ''-1'', number = 1, questionText = asc ''What is 2+2?'',
       optA = asc ''3'', optB = asc ''4'', optC = asc ''5'', optD = asc ''6'',
       answer = asc ''B'', source = []\<rparr>]"
  by (simp add: parseQuestions_def Let_def known_normalize known_structured known_flexible)


section \<open>The known literal case\<close>

text \<open>
  Claim C1. For the text \<open>1) What is 2+2? A) 3 B) 4 C) 5 D) 6 Answer: B\<close> and any
  source name, normalisation leaves the text unchanged and \<open>parseQuestions\<close> returns
  exactly one record: number 1, question \<open>What is 2+2?\<close>, options 3, 4, 5 and 6, and
  answer B.
\<close>

theorem known_literal_case:
  "normalize knownText = knownText \<and>
   parseQuestions knownText src =
     [\<lparr>qid = src @ asc ''-1'', number = 1, questionText = asc ''What is 2+2?'',
       optA = asc ''3'', optB = asc ''4'', optC = asc ''5'', optD = asc ''6'',
       answer = asc ''B'', source = src\<rparr>]"
  using parseQuestions_source[of knownText src]
  by (simp add: known_normalize known_parse withSource_def)


section \<open>The recall gate\<close>

text \<open>
  Claim C3. \<open>parseQuestions\<close> returns the output of the fallback on the same normalised
  text when the two structured patterns together yield fewer than 5 records, and the
  structured records themselves otherwise; the two are never merged.
\<close>

theorem parseQuestions_gate:
  "parseQuestions text src =
     (if length (structuredQuestions (normalize text) src) < 5
      then parseQuestionsFlexible (normalize text) src
      else structuredQuestions (normalize text) src)"
  by (simp add: parseQuestions_def Let_def)

theorem parseQuestions_gate_witness:
  "length (structuredQuestions (normalize knownText) []) < 5
   \<and> parseQuestions knownText [] = parseQuestionsFlexible (normalize knownText) []"
  using parseQuestions_gate[of knownText "[]"] by (simp add: known_normalize known_structured)

section \<open>Loading a batch of files\<close>

lemma loadLoop_eq:
  "loadLoop files (qs, lg) = (qs @ concat (map producedBy files), lg @ concat (map loggedBy files))"
  by (induction files arbitrary: qs lg) (auto simp: producedBy_def loggedBy_def split: sum.splits)

lemma loadPDFs_eq:
  "loadPDFs files = (concat (map producedBy files), concat (map loggedBy files))"
  by (simp add: loadPDFs_def loadLoop_eq)

text \<open>
  Claim C7. When the extraction of one file throws, \<open>loadPDFs\<close> logs the error and goes
  on: the pool returned holds the questions of the files before and after it, and the log
  holds the error under the name of the failing file.
\<close>

theorem loadPDFs_skips_failure:
  assumes "extractTextFromPDF bad = Inl e"
  shows "loadPDFs (before @ bad # after) =
           (fst (loadPDFs before) @ fst (loadPDFs after),
            snd (loadPDFs before) @ (name bad, e) # snd (loadPDFs after))"
  using assms by (simp add: loadPDFs_eq producedBy_def loggedBy_def extractQuestionsFromPDF_def)

theorem loadPDFs_skips_failure_witness:
  "extractTextFromPDF badFile = Inl (ExtractionError (asc ''Invalid PDF''))
   \<and> loadPDFs [badFile, goodFile] =
       (parseQuestions knownText (asc ''a.pdf''),
        [(asc ''b.pdf'', ExtractionError (asc ''Invalid PDF''))])"
proof -
  have b: "extractTextFromPDF badFile = Inl (ExtractionError (asc ''Invalid PDF''))"
    by (simp add: badFile_def)
  have g: "loadPDFs [goodFile] = (parseQuestions knownText (asc ''a.pdf''), [])"
    by (simp add: loadPDFs_def goodFile_def extractQuestionsFromPDF_def)
  have n: "loadPDFs [] = ([], [])" by (simp add: loadPDFs_def)
  show ?thesis
    using loadPDFs_skips_failure[OF b, of "[]" "[goodFile]"] b g n by (simp add: badFile_def)
qed

section \<open>Sampling\<close>

lemma random_index:
  assumes "0 \<le> r" "r < 1"
  shows "nat \<lfloor>r * real (Suc i + 1)\<rfloor> \<le> Suc i"
proof -
  have "r * real (Suc i + 1) < real (Suc i + 1)" using assms by simp
  then have "\<lfloor>r * real (Suc i + 1)\<rfloor> < int (Suc i + 1)" by (simp add: floor_less_iff)
  then show ?thesis by linarith
qed

lemma mset_swap_elems: "i < length xs \<Longrightarrow> j < length xs \<Longrightarrow> mset (swap i j xs) = mset xs"
  unfolding swap_def using mset_swap[of j xs i] by simp

lemma length_swap [simp]: "length (swap i j xs) = length xs"
  by (simp add: swap_def)

lemma swap_map: "i < length xs \<Longrightarrow> j < length xs \<Longrightarrow> swap i j (map f xs) = map f (swap i j xs)"
  by (simp add: swap_def map_update)

lemma length_shuffleLoop [simp]: "length (shuffleLoop rnd k i xs) = length xs"
  by (induction i arbitrary: k xs) (simp_all add: Let_def)

lemma mset_shuffleLoop:
  assumes "\<forall>k. 0 \<le> rnd k \<and> rnd k < 1"
  shows "i < length xs \<Longrightarrow> mset (shuffleLoop rnd k i xs) = mset xs"
proof (induction i arbitrary: k xs)
  case 0
  then show ?case by simp
next
  case (Suc i)
  have j: "nat \<lfloor>rnd k * real (Suc i + 1)\<rfloor> \<le> Suc i" using assms random_index by blast
  show ?case using Suc j by (simp add: Let_def mset_swap_elems)
qed

lemma shuffleLoop_map:
  assumes "\<forall>k. 0 \<le> rnd k \<and> rnd k < 1"
  shows "i < length xs \<Longrightarrow> shuffleLoop rnd k i (map f xs) = map f (shuffleLoop rnd k i xs)"
proof (induction i arbitrary: k xs)
  case 0
  then show ?case by simp
next
  case (Suc i)
  have j: "nat \<lfloor>rnd k * real (Suc i + 1)\<rfloor> \<le> Suc i" using assms random_index by blast
  show ?case using Suc j by (simp add: Let_def swap_map)
qed

lemma mset_shuffleArray:
  "\<forall>k. 0 \<le> rnd k \<and> rnd k < 1 \<Longrightarrow> mset (shuffleArray rnd xs) = mset xs"
  by (cases xs) (simp_all add: shuffleArray_def mset_shuffleLoop)

lemma shuffleArray_map:
  assumes "\<forall>k. 0 \<le> rnd k \<and> rnd k < 1"
  shows "shuffleArray rnd (map f xs) = map f (shuffleArray rnd xs)"
proof (cases "xs = []")
  case True
  then show ?thesis by (simp add: shuffleArray_def)
next
  case False
  then have "length xs - 1 < length xs" by (cases xs) simp_all
  then show ?thesis
    using shuffleLoop_map[OF assms, of "length xs - 1" xs 0 f] by (simp add: shuffleArray_def)
qed

lemma filter_as_indices:
  "filter P xs = map (nth xs) (filter (\<lambda>i. P (xs ! i)) [0..<length xs])"
proof -
  have "filter P xs = filter P (map (nth xs) [0..<length xs])" by (simp add: map_nth)
  also have "\<dots> = map (nth xs) (filter (P \<circ> nth xs) [0..<length xs])" by (simp only: filter_map)
  finally show ?thesis by (simp add: comp_def)
qed

text \<open>
  Claim C9. With \<open>Math.random\<close> in \<open>[0, 1)\<close>, \<open>getRandomQuestions\<close> returns
  \<open>min count m\<close> records, where \<open>m\<close> is the number of pool entries whose id is not
  excluded; the records are the pool entries at pairwise distinct positions, and none of
  them has an excluded id.
\<close>

theorem getRandomQuestions_sample:
  assumes rnd: "\<forall>k. 0 \<le> rnd k \<and> rnd k < 1"
  shows "length (getRandomQuestions rnd pool cnt excludeIds)
           = min cnt (length (filter (\<lambda>q. qid q \<notin> set excludeIds) pool))
       \<and> (\<exists>idxs. distinct idxs
               \<and> (\<forall>i \<in> set idxs. i < length pool \<and> qid (pool ! i) \<notin> set excludeIds)
               \<and> getRandomQuestions rnd pool cnt excludeIds = map (nth pool) idxs)"
proof -
  define P where "P = (\<lambda>q::question. qid q \<notin> set excludeIds)"
  define idx where "idx = filter (\<lambda>i. P (pool ! i)) [0..<length pool]"
  define idxs where "idxs = take cnt (shuffleArray rnd idx)"
  have res: "getRandomQuestions rnd pool cnt excludeIds = take cnt (shuffleArray rnd (filter P pool))"
    by (simp add: getRandomQuestions_def P_def Let_def)
  have m: "mset (shuffleArray rnd idx) = mset idx" using rnd by (rule mset_shuffleArray)
  have "distinct idx" by (simp add: idx_def)
  then have d: "distinct (shuffleArray rnd idx)" using m by (metis mset_eq_imp_distinct_iff)
  have s: "set (shuffleArray rnd idx) = set idx" using m by (metis mset_eq_setD)
  have "filter P pool = map (nth pool) idx" unfolding idx_def by (rule filter_as_indices)
  then have "shuffleArray rnd (filter P pool) = map (nth pool) (shuffleArray rnd idx)"
    using rnd by (simp add: shuffleArray_map)
  then have eq: "getRandomQuestions rnd pool cnt excludeIds = map (nth pool) idxs"
    by (simp add: res idxs_def take_map)
  have len: "length (shuffleArray rnd (filter P pool)) = length (filter P pool)"
    using mset_shuffleArray[OF rnd, of "filter P pool"] by (metis size_mset)
  have "set idxs \<subseteq> set idx" using s set_take_subset by (fastforce simp: idxs_def)
  then have in_range: "\<forall>i \<in> set idxs. i < length pool \<and> qid (pool ! i) \<notin> set excludeIds"
    by (auto simp: idx_def P_def)
  have dis: "distinct idxs" using d by (simp add: idxs_def)
  have "length (getRandomQuestions rnd pool cnt excludeIds) = min cnt (length (filter P pool))"
    unfolding res using len by simp
  then show ?thesis using eq in_range dis unfolding P_def by blast
qed

lemma examplePool_available:
  "filter (\<lambda>q. qid q \<notin> set [asc ''a.pdf-2'']) examplePool = [exampleQuestion 1, exampleQuestion 3]"
  by code_simp

theorem getRandomQuestions_sample_witness:
  "(\<forall>k::nat. (0::real) \<le> 1 / 2 \<and> (1::real) / 2 < 1)
   \<and> length (getRandomQuestions (\<lambda>k. 1 / 2) examplePool 2 [asc ''a.pdf-2'']) = 2"
proof -
  have r: "\<forall>k::nat. (0::real) \<le> 1 / 2 \<and> (1::real) / 2 < 1" by simp
  from getRandomQuestions_sample[OF r, of examplePool 2 "[asc ''a.pdf-2'']"]
  have "length (getRandomQuestions (\<lambda>k. 1 / 2) examplePool 2 [asc ''a.pdf-2''])
          = min 2 (length (filter (\<lambda>q. qid q \<notin> set [asc ''a.pdf-2'']) examplePool))"
    by (rule conjunct1)
  also have "\<dots> = 2" unfolding examplePool_available by simp
  finally show ?thesis using r by blast
qed

section \<open>The optional answer of the fallback\<close>

lemma marked_parse:
  "parseQuestions markedText [] =
     [\<lparr>qid = asc ''-1'', number = 1, questionText = asc ''What is 1+1?'',
       optA = asc ''1'', optB = asc ''3'', optC = asc ''4'', optD = asc ''2'',
       answer = asc ''A'', source = []\<rparr>]"
  by code_simp

text \<open>
  Claim C4. The text \<open>1) What is 1+1? A) 1 B) 3 C) 4 D) 20 Answer: D\<close> is one block
  that carries the answer marker \<open>Answer: D\<close>. The fallback produces the answer
  \<open>A\<close> for it, and \<open>2\<close> as option D: the lazy capture of option D stops after one
  code unit, the optional answer group is tried there, in front of \<open>0\<close>, and is skipped.
\<close>

theorem marked_answer_lost:
  "parseQuestions markedText src =
     [\<lparr>qid = src @ asc ''-1'', number = 1, questionText = asc ''What is 1+1?'',
       optA = asc ''1'', optB = asc ''3'', optC = asc ''4'', optD = asc ''2'',
       answer = asc ''A'', source = src\<rparr>]"
  using parseQuestions_source[of markedText src] by (simp add: marked_parse withSource_def)

section \<open>Identities in the pool\<close>

lemma repeated_parse:
  "map qid (parseQuestions repeatedText []) = [asc ''-1'', asc ''-1'']"
  by code_simp

text \<open>
  Claim C6, as stated, fails: a file whose text numbers two questions \<open>1)\<close> puts two
  records with the same identity into the pool.
\<close>

theorem pool_identity_repeated:
  "\<not> distinct (map qid (fst (loadPDFs [repeatedFile])))"
proof -
  have "map qid (parseQuestions repeatedText (asc ''a.pdf'')) = [asc ''a.pdf-1'', asc ''a.pdf-1'']"
    using arg_cong[OF parseQuestions_source[of repeatedText "asc ''a.pdf''"], of "map qid"]
      repeated_parse
    by (simp add: withSource_def comp_def map_eq_Cons_conv asc_def)
  then show ?thesis
    by (simp add: loadPDFs_def repeatedFile_def extractQuestionsFromPDF_def)
qed

text \<open>
  Claim C6, amended. \<open>loadPDFs\<close> removes and overwrites nothing: the pool is the
  concatenation, in the order of the files, of the records that \<open>parseQuestions\<close>
  produced for each file whose extraction succeeded. Records with the same identity all
  stay in the pool, in the order of their production.
\<close>

theorem loadPDFs_append_only:
  "fst (loadPDFs files) = concat (map producedBy files)"
  by (simp add: loadPDFs_eq)

section \<open>Cleaning after the checks\<close>

lemma watermarked_parse:
  "map (\<lambda>q. (questionText q, optA q)) (parseQuestions watermarkedText []) = [(asc ''ab'', [])]"
  by code_simp

section \<open>A second pass of the normalisation\<close>

lemma broken_normalize:
  "normalize brokenText = asc ''xxtixx ti xx'' \<and> normalize (asc ''xxtixx ti xx'') = asc ''xxtixxtixx''"
  by code_simp

end
